theory Spec2Isabelle
  imports Main "HOL-Library.Word" "HOL-Library.Code_Target_Nat"
begin

section \<open>JavaScript strings and numbers\<close>

text \<open>
  A JavaScript string is a sequence of 16-bit code units; the JSON text that
  \<^verbatim>\<open>JSON.stringify\<close> returns and \<^verbatim>\<open>JSON.parse\<close> reads is such a string too.
  \<open>str\<close> turns an ASCII literal of the source into its code units; a character
  outside ASCII is written as its code unit (\<open>0x53D7\<close> for U+53D7).
\<close>

type_synonym jsstring = "16 word list"

definition str :: "string \<Rightarrow> jsstring" where
  "str = map of_char"

text \<open>
  \<^verbatim>\<open>Date.now()\<close> returns an integer (milliseconds since the epoch), and so the only
  numbers of a Project File are integers. Numbers are modelled as \<open>int\<close>;
  fractions, exponents, \<^verbatim>\<open>NaN\<close>, the infinities and the rounding of integers beyond
  \<open>2^53\<close> are floating point and outside this model. \<open>Number_toString\<close> is what a
  template literal and \<^verbatim>\<open>JSON.stringify\<close> print for an integer below \<open>10^21\<close>:
  its decimal digits, with a minus sign when negative.
\<close>

definition digit_unit :: "nat \<Rightarrow> 16 word" where
  "digit_unit d = of_nat (48 + d)"

fun digits :: "nat \<Rightarrow> jsstring" where
  "digits n = (if n < 10 then [digit_unit n] else digits (n div 10) @ [digit_unit (n mod 10)])"

declare digits.simps [simp del]

definition Number_toString :: "int \<Rightarrow> jsstring" where
  "Number_toString i = (if i < 0 then str ''-'' @ digits (nat (- i)) else digits (nat i))"

definition is_safe_integer :: "int \<Rightarrow> bool" where
  "is_safe_integer i \<longleftrightarrow> - (2 ^ 53) < i \<and> i < 2 ^ 53"

section \<open>JSON values, \<^verbatim>\<open>JSON.stringify\<close> and \<^verbatim>\<open>JSON.parse\<close>\<close>

text \<open>
  The values \<^verbatim>\<open>JSON.parse\<close> can return. An object is the list of its own properties
  in the order in which the engine enumerates them (see \<open>property_order\<close>).
\<close>

datatype jsval =
    JNull
  | JBool bool
  | JNum int
  | JStr jsstring
  | JArr "jsval list"
  | JObj "(jsstring \<times> jsval) list"

subsection \<open>\<^verbatim>\<open>JSON.stringify\<close> (ECMA-262, 25.5.2, no indentation)\<close>

definition hex_digit :: "nat \<Rightarrow> 16 word" where
  "hex_digit n = of_nat (if n < 10 then 48 + n else 87 + n)"

text \<open>A backslash, \<open>u\<close> and the four lower-case hexadecimal digits of the code unit.\<close>

definition UnicodeEscape :: "16 word \<Rightarrow> jsstring" where
  "UnicodeEscape c =
     [0x5C, 0x75,
      hex_digit (unat c div 4096),
      hex_digit (unat c div 256 mod 16),
      hex_digit (unat c div 16 mod 16),
      hex_digit (unat c mod 16)]"

definition is_high_surrogate :: "16 word \<Rightarrow> bool" where
  "is_high_surrogate c \<longleftrightarrow> 0xD800 \<le> c \<and> c \<le> 0xDBFF"

definition is_low_surrogate :: "16 word \<Rightarrow> bool" where
  "is_low_surrogate c \<longleftrightarrow> 0xDC00 \<le> c \<and> c \<le> 0xDFFF"

text \<open>
  One code unit that is not half of a surrogate pair: the two-character escapes of
  the table (a backslash, \<open>0x5C\<close>, then \<open>b t n f r\<close>, the quote \<open>0x22\<close> or
  the backslash), a backslash, \<open>u\<close> and four hexadecimal digits for the other
  control characters and for a lone surrogate, the unit itself otherwise.
\<close>

definition quote_unit :: "16 word \<Rightarrow> jsstring" where
  "quote_unit c =
     (if c = 0x08 then [0x5C, 0x62]
      else if c = 0x09 then [0x5C, 0x74]
      else if c = 0x0A then [0x5C, 0x6E]
      else if c = 0x0C then [0x5C, 0x66]
      else if c = 0x0D then [0x5C, 0x72]
      else if c = 0x22 then [0x5C, 0x22]
      else if c = 0x5C then [0x5C, 0x5C]
      else if c < 0x20 \<or> is_high_surrogate c \<or> is_low_surrogate c then UnicodeEscape c
      else [c])"

fun quote_units :: "jsstring \<Rightarrow> jsstring" where
  "quote_units [] = []"
| "quote_units [c] = quote_unit c"
| "quote_units (c # d # cs) =
     (if is_high_surrogate c \<and> is_low_surrogate d then c # d # quote_units cs
      else quote_unit c @ quote_units (d # cs))"

definition QuoteJSONString :: "jsstring \<Rightarrow> jsstring" where
  "QuoteJSONString s = [0x22] @ quote_units s @ [0x22]"

fun JSON_stringify :: "jsval \<Rightarrow> jsstring"
  and stringify_elements :: "jsval list \<Rightarrow> jsstring"
  and stringify_members :: "(jsstring \<times> jsval) list \<Rightarrow> jsstring"
where
  "JSON_stringify JNull = str ''null''"
| "JSON_stringify (JBool b) = (if b then str ''true'' else str ''false'')"
| "JSON_stringify (JNum i) = Number_toString i"
| "JSON_stringify (JStr s) = QuoteJSONString s"
| "JSON_stringify (JArr vs) = str ''['' @ stringify_elements vs @ str '']''"
| "JSON_stringify (JObj ms) = str ''{'' @ stringify_members ms @ str ''}''"
| "stringify_elements [] = []"
| "stringify_elements [v] = JSON_stringify v"
| "stringify_elements (v # w # vs) =
     JSON_stringify v @ str '','' @ stringify_elements (w # vs)"
| "stringify_members [] = []"
| "stringify_members [(k, v)] = QuoteJSONString k @ str '':'' @ JSON_stringify v"
| "stringify_members ((k, v) # m # ms) =
     QuoteJSONString k @ str '':'' @ JSON_stringify v @ str '','' @ stringify_members (m # ms)"

subsection \<open>\<^verbatim>\<open>JSON.parse\<close> (ECMA-262, 25.5.1, no reviver)\<close>

definition is_ws :: "16 word \<Rightarrow> bool" where
  "is_ws c \<longleftrightarrow> c = 0x20 \<or> c = 0x09 \<or> c = 0x0A \<or> c = 0x0D"

definition skip_ws :: "jsstring \<Rightarrow> jsstring" where
  "skip_ws = dropWhile is_ws"

definition hex_value :: "16 word \<Rightarrow> nat option" where
  "hex_value c =
     (if 0x30 \<le> c \<and> c \<le> 0x39 then Some (unat c - 48)
      else if 0x61 \<le> c \<and> c \<le> 0x66 then Some (unat c - 87)
      else if 0x41 \<le> c \<and> c \<le> 0x46 then Some (unat c - 55)
      else None)"

definition hex4 :: "16 word \<Rightarrow> 16 word \<Rightarrow> 16 word \<Rightarrow> 16 word \<Rightarrow> 16 word option" where
  "hex4 a b c d =
     (case hex_value a of None \<Rightarrow> None | Some h3 \<Rightarrow>
      case hex_value b of None \<Rightarrow> None | Some h2 \<Rightarrow>
      case hex_value c of None \<Rightarrow> None | Some h1 \<Rightarrow>
      case hex_value d of None \<Rightarrow> None | Some h0 \<Rightarrow>
        Some (of_nat (4096 * h3 + 256 * h2 + 16 * h1 + h0)))"

text \<open>The character after a backslash, other than \<open>u\<close>: \<open>" \ / b f n r t\<close>.\<close>

definition unescape :: "16 word \<Rightarrow> 16 word option" where
  "unescape e =
     (if e = 0x22 then Some 0x22
      else if e = 0x5C then Some 0x5C
      else if e = 0x2F then Some 0x2F
      else if e = 0x62 then Some 0x08
      else if e = 0x66 then Some 0x0C
      else if e = 0x6E then Some 0x0A
      else if e = 0x72 then Some 0x0D
      else if e = 0x74 then Some 0x09
      else None)"

definition cons_result :: "16 word \<Rightarrow> (jsstring \<times> jsstring) option \<Rightarrow> (jsstring \<times> jsstring) option" where
  "cons_result c r = (case r of None \<Rightarrow> None | Some (t, rest) \<Rightarrow> Some (c # t, rest))"

text \<open>
  A string literal after its opening quote: the string, and the text after the
  closing quote. A raw control character, an unknown escape and a missing closing
  quote are syntax errors.
\<close>

fun parse_string :: "jsstring \<Rightarrow> (jsstring \<times> jsstring) option" where
  "parse_string [] = None"
| "parse_string (c # cs) =
     (if c = 0x22 then Some ([], cs)
      else if c = 0x5C then
        (case cs of
           [] \<Rightarrow> None
         | e # es \<Rightarrow>
             if e = 0x75 then
               (case es of
                  h3 # h2 # h1 # h0 # r \<Rightarrow>
                    (case hex4 h3 h2 h1 h0 of
                       None \<Rightarrow> None
                     | Some u \<Rightarrow> cons_result u (parse_string r))
                | _ \<Rightarrow> None)
             else
               (case unescape e of
                  None \<Rightarrow> None
                | Some u \<Rightarrow> cons_result u (parse_string es)))
      else if c < 0x20 then None
      else cons_result c (parse_string cs))"

definition is_digit :: "16 word \<Rightarrow> bool" where
  "is_digit c \<longleftrightarrow> 0x30 \<le> c \<and> c \<le> 0x39"

definition digit_value :: "16 word \<Rightarrow> nat" where
  "digit_value c = unat c - 48"

fun read_digits :: "nat \<Rightarrow> jsstring \<Rightarrow> nat \<times> jsstring" where
  "read_digits acc [] = (acc, [])"
| "read_digits acc (c # cs) =
     (if is_digit c then read_digits (10 * acc + digit_value c) cs else (acc, c # cs))"

text \<open>
  A number token of the integer fragment: an optional minus sign, then \<open>0\<close> or a
  digit \<open>1-9\<close> and more digits. A fraction or an exponent after it is outside the
  fragment, and the model gives no value (\<open>None\<close>) for such a text, which the
  engine would read as a floating-point number.
\<close>

definition integer_end :: "bool \<Rightarrow> nat \<Rightarrow> jsstring \<Rightarrow> (int \<times> jsstring) option" where
  "integer_end neg n r =
     (case r of
        [] \<Rightarrow> Some (if neg then - int n else int n, r)
      | c # cs \<Rightarrow>
          if c = 0x2E \<or> c = 0x65 \<or> c = 0x45 then None
          else Some (if neg then - int n else int n, r))"

definition parse_unsigned :: "bool \<Rightarrow> jsstring \<Rightarrow> (int \<times> jsstring) option" where
  "parse_unsigned neg s =
     (case s of
        [] \<Rightarrow> None
      | d # ds \<Rightarrow>
          if d = 0x30 then integer_end neg 0 ds
          else if is_digit d then (case read_digits 0 s of (n, r) \<Rightarrow> integer_end neg n r)
          else None)"

definition parse_number :: "jsstring \<Rightarrow> (int \<times> jsstring) option" where
  "parse_number s =
     (case s of
        [] \<Rightarrow> None
      | c # cs \<Rightarrow> if c = 0x2D then parse_unsigned True cs else parse_unsigned False s)"

fun strip_prefix :: "jsstring \<Rightarrow> jsstring \<Rightarrow> jsstring option" where
  "strip_prefix [] s = Some s"
| "strip_prefix (p # ps) [] = None"
| "strip_prefix (p # ps) (c # cs) = (if p = c then strip_prefix ps cs else None)"

definition parse_literal :: "jsstring \<Rightarrow> jsval \<Rightarrow> jsstring \<Rightarrow> (jsval \<times> jsstring) option" where
  "parse_literal word v s = (case strip_prefix word s of None \<Rightarrow> None | Some r \<Rightarrow> Some (v, r))"

text \<open>
  An array index is the canonical numeral (no sign, no leading zero) of an integer
  from 0 to \<open>2^32 - 2\<close>. The engine lists the own property keys of an object with
  the array indices first, in ascending order, and then the other keys in the order
  of their creation. \<open>precedes k q\<close>: a new key \<open>k\<close> goes before the present key \<open>q\<close>.
\<close>

definition array_index :: "jsstring \<Rightarrow> nat option" where
  "array_index k =
     (case k of
        [] \<Rightarrow> None
      | c # cs \<Rightarrow>
          if list_all is_digit k \<and> (c \<noteq> 0x30 \<or> cs = [])
          then (case read_digits 0 k of (n, r) \<Rightarrow> if n < 4294967295 then Some n else None)
          else None)"

definition precedes :: "jsstring \<Rightarrow> jsstring \<Rightarrow> bool" where
  "precedes k q =
     (case array_index k of
        None \<Rightarrow> False
      | Some n \<Rightarrow> (case array_index q of None \<Rightarrow> True | Some m \<Rightarrow> n < m))"

text \<open>
  \<^verbatim>\<open>CreateDataProperty\<close> on the property list: a key that is there already keeps
  its place and takes the new value (the last of several equal keys of a JSON text
  wins); a new key goes to its place in the order of keys.
\<close>

fun set_property :: "(jsstring \<times> jsval) list \<Rightarrow> jsstring \<Rightarrow> jsval \<Rightarrow> (jsstring \<times> jsval) list" where
  "set_property [] k v = [(k, v)]"
| "set_property (p # ps) k v =
     (if fst p = k then (k, v) # ps
      else if precedes k (fst p) then (k, v) # p # ps
      else p # set_property ps k v)"

text \<open>
  The recursive descent over values, array elements (after \<open>[\<close> or a comma) and
  object members (after \<open>{\<close> or a comma). Every call takes one unit of fuel; the
  length of the text bounds the calls a parse makes, so \<open>JSON_parse\<close> starts with
  more than that. \<open>None\<close> is the \<^verbatim>\<open>SyntaxError\<close>.
\<close>

fun parse_value :: "nat \<Rightarrow> jsstring \<Rightarrow> (jsval \<times> jsstring) option"
  and parse_elements :: "nat \<Rightarrow> jsval list \<Rightarrow> jsstring \<Rightarrow> (jsval \<times> jsstring) option"
  and parse_members :: "nat \<Rightarrow> (jsstring \<times> jsval) list \<Rightarrow> jsstring \<Rightarrow> (jsval \<times> jsstring) option"
where
  "parse_value 0 s = None"
| "parse_value (Suc n) s =
     (case skip_ws s of
        [] \<Rightarrow> None
      | c # cs \<Rightarrow>
          if c = 0x5B then
            (case skip_ws cs of
               [] \<Rightarrow> None
             | d # ds \<Rightarrow> if d = 0x5D then Some (JArr [], ds) else parse_elements n [] cs)
          else if c = 0x7B then
            (case skip_ws cs of
               [] \<Rightarrow> None
             | d # ds \<Rightarrow> if d = 0x7D then Some (JObj [], ds) else parse_members n [] cs)
          else if c = 0x22 then
            (case parse_string cs of None \<Rightarrow> None | Some (t, r) \<Rightarrow> Some (JStr t, r))
          else if c = 0x74 then parse_literal (str ''true'') (JBool True) (c # cs)
          else if c = 0x66 then parse_literal (str ''false'') (JBool False) (c # cs)
          else if c = 0x6E then parse_literal (str ''null'') JNull (c # cs)
          else (case parse_number (c # cs) of None \<Rightarrow> None | Some (i, r) \<Rightarrow> Some (JNum i, r)))"
| "parse_elements 0 acc s = None"
| "parse_elements (Suc n) acc s =
     (case parse_value n s of
        None \<Rightarrow> None
      | Some (v, r) \<Rightarrow>
          (case skip_ws r of
             [] \<Rightarrow> None
           | c # cs \<Rightarrow>
               if c = 0x2C then parse_elements n (acc @ [v]) cs
               else if c = 0x5D then Some (JArr (acc @ [v]), cs)
               else None))"
| "parse_members 0 acc s = None"
| "parse_members (Suc n) acc s =
     (case skip_ws s of
        [] \<Rightarrow> None
      | q # s1 \<Rightarrow>
          if q \<noteq> 0x22 then None
          else
            (case parse_string s1 of
               None \<Rightarrow> None
             | Some (k, s2) \<Rightarrow>
                 (case skip_ws s2 of
                    [] \<Rightarrow> None
                  | c # s3 \<Rightarrow>
                      if c \<noteq> 0x3A then None
                      else
                        (case parse_value n s3 of
                           None \<Rightarrow> None
                         | Some (v, r) \<Rightarrow>
                             (case skip_ws r of
                                [] \<Rightarrow> None
                              | d # ds \<Rightarrow>
                                  if d = 0x2C then parse_members n (set_property acc k v) ds
                                  else if d = 0x7D then Some (JObj (set_property acc k v), ds)
                                  else None)))))"

definition JSON_parse :: "jsstring \<Rightarrow> jsval option" where
  "JSON_parse s =
     (case parse_value (Suc (length s)) s of
        None \<Rightarrow> None
      | Some (v, r) \<Rightarrow> if skip_ws r = [] then Some v else None)"

text \<open>
  The lists that are the keys of an object as the engine enumerates them: no key is
  due before its predecessor.
\<close>

fun property_order :: "jsstring list \<Rightarrow> bool" where
  "property_order [] = True"
| "property_order [k] = True"
| "property_order (k # q # ks) = (\<not> precedes q k \<and> property_order (q # ks))"

text \<open>
  The values this model represents exactly: integers in the safe range, and objects
  whose keys are pairwise different and in the engine's order.
\<close>

fun wf_jsval :: "jsval \<Rightarrow> bool"
  and wf_elements :: "jsval list \<Rightarrow> bool"
  and wf_members :: "(jsstring \<times> jsval) list \<Rightarrow> bool"
where
  "wf_jsval JNull = True"
| "wf_jsval (JBool b) = True"
| "wf_jsval (JNum i) = is_safe_integer i"
| "wf_jsval (JStr s) = True"
| "wf_jsval (JArr vs) = wf_elements vs"
| "wf_jsval (JObj ms) =
     (distinct (map fst ms) \<and> property_order (map fst ms) \<and> wf_members ms)"
| "wf_elements [] = True"
| "wf_elements (v # vs) = (wf_jsval v \<and> wf_elements vs)"
| "wf_members [] = True"
| "wf_members ((k, v) # ms) = (wf_jsval v \<and> wf_members ms)"

text \<open>The text after a value inside an array or object, or at the end of the input.\<close>

definition delimited :: "jsstring \<Rightarrow> bool" where
  "delimited r \<longleftrightarrow> (case r of [] \<Rightarrow> True | c # cs \<Rightarrow> c = 0x2C \<or> c = 0x5D \<or> c = 0x7D)"

section \<open>The data model\<close>

text \<open>
  Modelled from the spec: the type declarations of \<^verbatim>\<open>./types\<close> (\<^verbatim>\<open>LibraryData\<close>,
  \<^verbatim>\<open>ProjectNode\<close>, \<^verbatim>\<open>ProjectVersion\<close>, \<^verbatim>\<open>ProjectFile\<close>) are not among the sources.
  The records follow section 3 of the spec and the object literals of
  \<^verbatim>\<open>App.tsx\<close>; an optional field that is absent is \<open>None\<close>. Record fields are
  global names in HOL, so \<^verbatim>\<open>id\<close>, \<^verbatim>\<open>name\<close>, \<^verbatim>\<open>label\<close>, \<^verbatim>\<open>type\<close>, \<^verbatim>\<open>options\<close> and
  \<^verbatim>\<open>format\<close> carry the name of their record. \<^verbatim>\<open>App.tsx\<close> never looks inside a
  Document Node or a Project Version, whose fields the sources do not give: a node
  and a version are any JSON value.
\<close>

datatype VariableType = TypeText | TypeNumber | TypeDate | TypeSelect | TypeRadio

datatype FormType = Standard | Grid

record Variable =
  var_id :: jsstring
  var_label :: jsstring
  var_type :: VariableType
  var_options :: "jsstring list option"
  var_format :: "jsstring option"

record Form =
  form_id :: jsstring
  form_name :: jsstring
  form_type :: FormType
  variableIds :: "jsstring list"
  headerVariableIds :: "jsstring list option"
  defaultRows :: "jsstring list option"

record LibraryData =
  variables :: "Variable list"
  forms :: "Form list"

type_synonym ProjectNode = jsval

type_synonym ProjectVersion = jsval

record ProjectMeta =
  meta_id :: jsstring
  meta_name :: jsstring
  description :: jsstring
  createdAt :: int
  lastModified :: int

record ProjectData =
  project :: "ProjectNode list"
  library :: LibraryData
  versions :: "ProjectVersion list"

record ProjectFile =
  meta :: ProjectMeta
  data :: ProjectData

subsection \<open>Project Files as JavaScript objects\<close>

text \<open>
  The object a record stands for, its properties in the order of the object
  literals of \<^verbatim>\<open>App.tsx\<close>; an absent optional field is no property at all.
\<close>

definition VariableType_toJS :: "VariableType \<Rightarrow> jsval" where
  "VariableType_toJS t =
     JStr (case t of
             TypeText \<Rightarrow> str ''text''
           | TypeNumber \<Rightarrow> str ''number''
           | TypeDate \<Rightarrow> str ''date''
           | TypeSelect \<Rightarrow> str ''select''
           | TypeRadio \<Rightarrow> str ''radio'')"

definition FormType_toJS :: "FormType \<Rightarrow> jsval" where
  "FormType_toJS t = JStr (case t of Standard \<Rightarrow> str ''standard'' | Grid \<Rightarrow> str ''grid'')"

definition strings_toJS :: "jsstring list \<Rightarrow> jsval" where
  "strings_toJS xs = JArr (map JStr xs)"

definition optional :: "string \<Rightarrow> ('a \<Rightarrow> jsval) \<Rightarrow> 'a option \<Rightarrow> (jsstring \<times> jsval) list" where
  "optional k f x = (case x of None \<Rightarrow> [] | Some y \<Rightarrow> [(str k, f y)])"

definition Variable_toJS :: "Variable \<Rightarrow> jsval" where
  "Variable_toJS v =
     JObj ([(str ''id'', JStr (var_id v)),
            (str ''label'', JStr (var_label v)),
            (str ''type'', VariableType_toJS (var_type v))]
           @ optional ''options'' strings_toJS (var_options v)
           @ optional ''format'' JStr (var_format v))"

definition Form_toJS :: "Form \<Rightarrow> jsval" where
  "Form_toJS f =
     JObj ([(str ''id'', JStr (form_id f)),
            (str ''name'', JStr (form_name f)),
            (str ''type'', FormType_toJS (form_type f))]
           @ optional ''headerVariableIds'' strings_toJS (headerVariableIds f)
           @ [(str ''variableIds'', strings_toJS (variableIds f))]
           @ optional ''defaultRows'' strings_toJS (defaultRows f))"

definition LibraryData_toJS :: "LibraryData \<Rightarrow> jsval" where
  "LibraryData_toJS l =
     JObj [(str ''variables'', JArr (map Variable_toJS (variables l))),
           (str ''forms'', JArr (map Form_toJS (forms l)))]"

definition ProjectMeta_toJS :: "ProjectMeta \<Rightarrow> jsval" where
  "ProjectMeta_toJS m =
     JObj [(str ''id'', JStr (meta_id m)),
           (str ''name'', JStr (meta_name m)),
           (str ''description'', JStr (description m)),
           (str ''createdAt'', JNum (createdAt m)),
           (str ''lastModified'', JNum (lastModified m))]"

definition ProjectData_toJS :: "ProjectData \<Rightarrow> jsval" where
  "ProjectData_toJS d =
     JObj [(str ''project'', JArr (project d)),
           (str ''library'', LibraryData_toJS (library d)),
           (str ''versions'', JArr (versions d))]"

definition ProjectFile_toJS :: "ProjectFile \<Rightarrow> jsval" where
  "ProjectFile_toJS p =
     JObj [(str ''meta'', ProjectMeta_toJS (meta p)),
           (str ''data'', ProjectData_toJS (data p))]"

text \<open>
  Reading a parsed value at a type of \<^verbatim>\<open>./types\<close>: property access by key. TypeScript
  checks nothing at run time; \<open>None\<close> says that the value has not the shape of the
  type.
\<close>

definition get_property :: "string \<Rightarrow> jsval \<Rightarrow> jsval option" where
  "get_property k v = (case v of JObj ms \<Rightarrow> map_of ms (str k) | _ \<Rightarrow> None)"

definition as_string :: "jsval \<Rightarrow> jsstring option" where
  "as_string v = (case v of JStr s \<Rightarrow> Some s | _ \<Rightarrow> None)"

definition as_number :: "jsval \<Rightarrow> int option" where
  "as_number v = (case v of JNum i \<Rightarrow> Some i | _ \<Rightarrow> None)"

fun collect :: "('a \<Rightarrow> 'b option) \<Rightarrow> 'a list \<Rightarrow> 'b list option" where
  "collect f [] = Some []"
| "collect f (x # xs) =
     (case f x of
        None \<Rightarrow> None
      | Some y \<Rightarrow> (case collect f xs of None \<Rightarrow> None | Some ys \<Rightarrow> Some (y # ys)))"

definition as_array :: "(jsval \<Rightarrow> 'a option) \<Rightarrow> jsval \<Rightarrow> 'a list option" where
  "as_array f v = (case v of JArr xs \<Rightarrow> collect f xs | _ \<Rightarrow> None)"

definition required :: "string \<Rightarrow> (jsval \<Rightarrow> 'a option) \<Rightarrow> jsval \<Rightarrow> 'a option" where
  "required k f v = (case get_property k v of None \<Rightarrow> None | Some x \<Rightarrow> f x)"

definition optionally :: "string \<Rightarrow> (jsval \<Rightarrow> 'a option) \<Rightarrow> jsval \<Rightarrow> 'a option option" where
  "optionally k f v =
     (case get_property k v of
        None \<Rightarrow> Some None
      | Some x \<Rightarrow> (case f x of None \<Rightarrow> None | Some y \<Rightarrow> Some (Some y)))"

definition VariableType_of :: "jsval \<Rightarrow> VariableType option" where
  "VariableType_of v =
     (case as_string v of
        None \<Rightarrow> None
      | Some s \<Rightarrow>
          if s = str ''text'' then Some TypeText
          else if s = str ''number'' then Some TypeNumber
          else if s = str ''date'' then Some TypeDate
          else if s = str ''select'' then Some TypeSelect
          else if s = str ''radio'' then Some TypeRadio
          else None)"

definition FormType_of :: "jsval \<Rightarrow> FormType option" where
  "FormType_of v =
     (case as_string v of
        None \<Rightarrow> None
      | Some s \<Rightarrow>
          if s = str ''standard'' then Some Standard
          else if s = str ''grid'' then Some Grid
          else None)"

definition Variable_of :: "jsval \<Rightarrow> Variable option" where
  "Variable_of v =
     (case required ''id'' as_string v of None \<Rightarrow> None | Some i \<Rightarrow>
      case required ''label'' as_string v of None \<Rightarrow> None | Some l \<Rightarrow>
      case required ''type'' VariableType_of v of None \<Rightarrow> None | Some t \<Rightarrow>
      case optionally ''options'' (as_array as_string) v of None \<Rightarrow> None | Some os \<Rightarrow>
      case optionally ''format'' as_string v of None \<Rightarrow> None | Some f \<Rightarrow>
        Some \<lparr>var_id = i, var_label = l, var_type = t, var_options = os, var_format = f\<rparr>)"

definition Form_of :: "jsval \<Rightarrow> Form option" where
  "Form_of v =
     (case required ''id'' as_string v of None \<Rightarrow> None | Some i \<Rightarrow>
      case required ''name'' as_string v of None \<Rightarrow> None | Some n \<Rightarrow>
      case required ''type'' FormType_of v of None \<Rightarrow> None | Some t \<Rightarrow>
      case required ''variableIds'' (as_array as_string) v of None \<Rightarrow> None | Some vs \<Rightarrow>
      case optionally ''headerVariableIds'' (as_array as_string) v of None \<Rightarrow> None | Some hs \<Rightarrow>
      case optionally ''defaultRows'' (as_array as_string) v of None \<Rightarrow> None | Some rs \<Rightarrow>
        Some \<lparr>form_id = i, form_name = n, form_type = t, variableIds = vs,
              headerVariableIds = hs, defaultRows = rs\<rparr>)"

definition LibraryData_of :: "jsval \<Rightarrow> LibraryData option" where
  "LibraryData_of v =
     (case required ''variables'' (as_array Variable_of) v of None \<Rightarrow> None | Some vs \<Rightarrow>
      case required ''forms'' (as_array Form_of) v of None \<Rightarrow> None | Some fs \<Rightarrow>
        Some \<lparr>variables = vs, forms = fs\<rparr>)"

definition ProjectMeta_of :: "jsval \<Rightarrow> ProjectMeta option" where
  "ProjectMeta_of v =
     (case required ''id'' as_string v of None \<Rightarrow> None | Some i \<Rightarrow>
      case required ''name'' as_string v of None \<Rightarrow> None | Some n \<Rightarrow>
      case required ''description'' as_string v of None \<Rightarrow> None | Some d \<Rightarrow>
      case required ''createdAt'' as_number v of None \<Rightarrow> None | Some c \<Rightarrow>
      case required ''lastModified'' as_number v of None \<Rightarrow> None | Some m \<Rightarrow>
        Some \<lparr>meta_id = i, meta_name = n, description = d, createdAt = c, lastModified = m\<rparr>)"

definition ProjectData_of :: "jsval \<Rightarrow> ProjectData option" where
  "ProjectData_of v =
     (case required ''project'' (as_array Some) v of None \<Rightarrow> None | Some ns \<Rightarrow>
      case required ''library'' LibraryData_of v of None \<Rightarrow> None | Some l \<Rightarrow>
      case required ''versions'' (as_array Some) v of None \<Rightarrow> None | Some vs \<Rightarrow>
        Some \<lparr>project = ns, library = l, versions = vs\<rparr>)"

definition ProjectFile_of :: "jsval \<Rightarrow> ProjectFile option" where
  "ProjectFile_of v =
     (case required ''meta'' ProjectMeta_of v of None \<Rightarrow> None | Some m \<Rightarrow>
      case required ''data'' ProjectData_of v of None \<Rightarrow> None | Some d \<Rightarrow>
        Some \<lparr>meta = m, data = d\<rparr>)"

text \<open>
  A valid Project File, as far as \<^verbatim>\<open>App.tsx\<close> and this model of JSON go: its two
  timestamps are safe integers, and its nodes and versions are values the model
  represents exactly.
\<close>

definition valid_ProjectFile :: "ProjectFile \<Rightarrow> bool" where
  "valid_ProjectFile p \<longleftrightarrow>
     is_safe_integer (createdAt (meta p)) \<and> is_safe_integer (lastModified (meta p)) \<and>
     wf_elements (project (data p)) \<and> wf_elements (versions (data p))"

section \<open>\<^verbatim>\<open>App.tsx\<close>\<close>

subsection \<open>\<^verbatim>\<open>INITIAL_LIBRARY\<close> (lines 31-90)\<close>

text \<open>
  The labels, formats, options, form names and row labels are Chinese text, given
  here by their code units; the identifiers are ASCII.
\<close>

definition INITIAL_LIBRARY :: LibraryData where
  "INITIAL_LIBRARY = \<lparr>
   variables = [
     \<lparr>var_id = str ''DEM_01'',
      var_label = [0x53D7, 0x8BD5, 0x8005, 0x59D3, 0x540D, 0x7F29, 0x5199],
      var_type = TypeText,
      var_options = None,
      var_format = Some ([0x6700, 0x591A] @ str ''4'' @ [0x4F4D, 0x5B57, 0x6BCD])\<rparr>,
     \<lparr>var_id = str ''DEM_02'',
      var_label = [0x51FA, 0x751F, 0x65E5, 0x671F],
      var_type = TypeDate,
      var_options = None,
      var_format = Some (str ''YYYY-MM-DD'')\<rparr>,
     \<lparr>var_id = str ''VS_01'',
      var_label = [0x6536, 0x7F29, 0x538B] @ str '' (mmHg)'',
      var_type = TypeNumber,
      var_options = None,
      var_format = Some (str ''3'' @ [0x4F4D, 0x6574, 0x6570])\<rparr>,
     \<lparr>var_id = str ''VS_02'',
      var_label = [0x8212, 0x5F20, 0x538B] @ str '' (mmHg)'',
      var_type = TypeNumber,
      var_options = None,
      var_format = Some (str ''3'' @ [0x4F4D, 0x6574, 0x6570])\<rparr>,
     \<lparr>var_id = str ''VS_03'',
      var_label = [0x5FC3, 0x7387] @ str '' (bpm)'',
      var_type = TypeNumber,
      var_options = None,
      var_format = Some (str ''3'' @ [0x4F4D, 0x6574, 0x6570])\<rparr>,
     \<lparr>var_id = str ''AE_01'',
      var_label = [0x4E0D, 0x826F, 0x4E8B, 0x4EF6, 0x540D, 0x79F0],
      var_type = TypeText,
      var_options = None,
      var_format = None\<rparr>,
     \<lparr>var_id = str ''AE_02'',
      var_label = [0x4E25, 0x91CD, 0x7A0B, 0x5EA6],
      var_type = TypeSelect,
      var_options = Some ([[0x8F7B, 0x5EA6],
                          [0x4E2D, 0x5EA6],
                          [0x91CD, 0x5EA6]]),
      var_format = None\<rparr>,
     \<lparr>var_id = str ''AE_03'',
      var_label = [0x4E0E, 0x836F, 0x7269, 0x76F8, 0x5173, 0x6027],
      var_type = TypeRadio,
      var_options = Some ([[0x80AF, 0x5B9A, 0x6709, 0x5173],
                          [0x53EF, 0x80FD, 0x6709, 0x5173],
                          [0x53EF, 0x80FD, 0x65E0, 0x5173],
                          [0x80AF, 0x5B9A, 0x65E0, 0x5173]]),
      var_format = None\<rparr>,
     \<lparr>var_id = str ''PK_DONE'',
      var_label = [0x662F, 0x5426, 0x91C7, 0x8840],
      var_type = TypeRadio,
      var_options = Some ([[0x662F],
                          [0x5426]]),
      var_format = None\<rparr>,
     \<lparr>var_id = str ''PK_DATE'',
      var_label = [0x91C7, 0x8840, 0x65E5, 0x671F],
      var_type = TypeDate,
      var_options = None,
      var_format = Some (str ''YYYY-MM-DD'')\<rparr>,
     \<lparr>var_id = str ''PK_TIME'',
      var_label = [0x91C7, 0x8840, 0x65F6, 0x95F4],
      var_type = TypeText,
      var_options = None,
      var_format = Some (str ''HH:MM (24h)'')\<rparr>,
     \<lparr>var_id = str ''PK_REMARK'',
      var_label = [0x5907, 0x6CE8],
      var_type = TypeText,
      var_options = None,
      var_format = None\<rparr>,
     \<lparr>var_id = str ''URINE_VOL'',
      var_label = [0x5C3F, 0x6DB2, 0x4F53, 0x79EF] @ str '' (mL)'',
      var_type = TypeNumber,
      var_options = None,
      var_format = None\<rparr>,
     \<lparr>var_id = str ''URINE_START'',
      var_label = [0x8D77, 0x59CB, 0x65F6, 0x95F4],
      var_type = TypeText,
      var_options = None,
      var_format = Some (str ''HH:MM'')\<rparr>,
     \<lparr>var_id = str ''URINE_END'',
      var_label = [0x7ED3, 0x675F, 0x65F6, 0x95F4],
      var_type = TypeText,
      var_options = None,
      var_format = Some (str ''HH:MM'')\<rparr>],
   forms = [
     \<lparr>form_id = str ''DM'',
      form_name = [0x4EBA, 0x53E3, 0x5B66, 0x8D44, 0x6599],
      form_type = Standard,
      variableIds = [str ''DEM_01'', str ''DEM_02''],
      headerVariableIds = None,
      defaultRows = None\<rparr>,
     \<lparr>form_id = str ''VS'',
      form_name = [0x751F, 0x547D, 0x4F53, 0x5F81],
      form_type = Standard,
      variableIds = [str ''VS_01'', str ''VS_02'', str ''VS_03''],
      headerVariableIds = None,
      defaultRows = None\<rparr>,
     \<lparr>form_id = str ''AE'',
      form_name = [0x4E0D, 0x826F, 0x4E8B, 0x4EF6],
      form_type = Standard,
      variableIds = [str ''AE_01'', str ''AE_02'', str ''AE_03''],
      headerVariableIds = None,
      defaultRows = None\<rparr>,
     \<lparr>form_id = str ''PK'',
      form_name = str ''PK '' @ [0x91C7, 0x8840, 0x8BB0, 0x5F55],
      form_type = Grid,
      variableIds = [str ''PK_TIME'', str ''PK_DONE'', str ''PK_REMARK''],
      headerVariableIds = Some ([str ''PK_DATE'']),
      defaultRows = Some ([[0x7ED9, 0x836F, 0x524D] @ str ''0h'',
                          [0x7ED9, 0x836F, 0x540E] @ str ''0.5h'',
                          [0x7ED9, 0x836F, 0x540E] @ str ''1h'',
                          [0x7ED9, 0x836F, 0x540E] @ str ''2h'',
                          [0x7ED9, 0x836F, 0x540E] @ str ''4h''])\<rparr>]\<rparr>"

subsection \<open>The invariants of a Library Store (spec, section 3)\<close>

definition variable_ids :: "LibraryData \<Rightarrow> jsstring list" where
  "variable_ids l = map var_id (variables l)"

definition form_ids :: "LibraryData \<Rightarrow> jsstring list" where
  "form_ids l = map form_id (forms l)"

definition referenced_ids :: "Form \<Rightarrow> jsstring list" where
  "referenced_ids f =
     variableIds f @ (case headerVariableIds f of None \<Rightarrow> [] | Some hs \<Rightarrow> hs)"

definition dangling :: "LibraryData \<Rightarrow> Form \<Rightarrow> jsstring list" where
  "dangling l f = filter (\<lambda>i. i \<notin> set (variable_ids l)) (referenced_ids f)"

definition references_resolve :: "LibraryData \<Rightarrow> bool" where
  "references_resolve l \<longleftrightarrow> list_all (\<lambda>f. dangling l f = []) (forms l)"

definition needs_options :: "Variable \<Rightarrow> bool" where
  "needs_options v \<longleftrightarrow> var_type v = TypeSelect \<or> var_type v = TypeRadio"

definition has_options :: "Variable \<Rightarrow> bool" where
  "has_options v \<longleftrightarrow> (case var_options v of None \<Rightarrow> False | Some os \<Rightarrow> os \<noteq> [])"

definition options_present :: "LibraryData \<Rightarrow> bool" where
  "options_present l \<longleftrightarrow> list_all has_options (filter needs_options (variables l))"

definition library_invariants :: "LibraryData \<Rightarrow> bool" where
  "library_invariants l \<longleftrightarrow>
     distinct (variable_ids l) \<and> distinct (form_ids l) \<and>
     references_resolve l \<and> options_present l"

subsection \<open>The component's state (lines 96-97) and the clock\<close>

text \<open>
  \<^verbatim>\<open>projects\<close> and \<^verbatim>\<open>activeProjectId\<close> (\<^verbatim>\<open>string | null\<close>) are the two state variables
  of \<^verbatim>\<open>App\<close>. A handler reads the clock by \<^verbatim>\<open>Date.now()\<close>, once per occurrence
  evaluated: it takes the readings as a function \<open>now\<close>, of which \<open>now k\<close> is what
  its call number \<open>k\<close> of \<^verbatim>\<open>Date.now()\<close> returns, counted from 0.
\<close>

record app_state =
  projects :: "ProjectFile list"
  activeProjectId :: "jsstring option"

type_synonym clock = "nat \<Rightarrow> int"

definition initial_state :: app_state where
  "initial_state = \<lparr>projects = [], activeProjectId = None\<rparr>"

definition project_ids :: "ProjectFile list \<Rightarrow> jsstring list" where
  "project_ids ps = map (\<lambda>p. meta_id (meta p)) ps"

subsection \<open>Loading and saving (lines 92-119)\<close>

type_synonym storage = "jsstring \<rightharpoonup> jsstring"

definition PROJECTS_STORAGE_KEY :: jsstring where
  "PROJECTS_STORAGE_KEY = str ''docugen_pro_projects_v11''"

definition Array_isArray :: "jsval \<Rightarrow> bool" where
  "Array_isArray v = (case v of JArr xs \<Rightarrow> True | _ \<Rightarrow> False)"

text \<open>
  The effect that runs on mount, on the state \<open>[]\<close> of \<^verbatim>\<open>useState\<close>. The stored text
  is any text, also one outside the fragment of JSON that \<open>JSON_parse\<close> models, so
  the effect takes the parser as \<open>parse\<close>, where \<open>None\<close> is the exception that the
  \<^verbatim>\<open>catch\<close> swallows. An empty string is falsy, like \<^verbatim>\<open>null\<close>. What the effect
  installs is the parsed array as it is: nothing checks that its elements are
  Project Files.
\<close>

definition load_effect :: "(jsstring \<Rightarrow> jsval option) \<Rightarrow> storage \<Rightarrow> jsval list \<Rightarrow> jsval list" where
  "load_effect parse localStorage current =
     (case localStorage PROJECTS_STORAGE_KEY of
        None \<Rightarrow> current
      | Some saved \<Rightarrow>
          if saved = [] then current
          else
            (case parse saved of
               None \<Rightarrow> current
             | Some parsed \<Rightarrow> (case parsed of JArr xs \<Rightarrow> xs | _ \<Rightarrow> current)))"

definition startup :: "(jsstring \<Rightarrow> jsval option) \<Rightarrow> storage \<Rightarrow> jsval list" where
  "startup parse localStorage = load_effect parse localStorage []"

text \<open>The effect that runs after every change of \<^verbatim>\<open>projects\<close>.\<close>

definition persist_effect :: "ProjectFile list \<Rightarrow> storage \<Rightarrow> storage" where
  "persist_effect ps localStorage =
     (if length ps > 0
      then localStorage(PROJECTS_STORAGE_KEY \<mapsto> JSON_stringify (JArr (map ProjectFile_toJS ps)))
      else localStorage)"

subsection \<open>Project management handlers (lines 123-163)\<close>

text \<open>
  \<^verbatim>\<open>JSON.parse(JSON.stringify(INITIAL_LIBRARY))\<close>, read at the type of the field it is
  assigned to; \<open>None\<close> were an exception, which would leave the handler before it
  sets any state.
\<close>

definition deep_clone_library :: "LibraryData \<Rightarrow> LibraryData option" where
  "deep_clone_library l =
     (case JSON_parse (JSON_stringify (LibraryData_toJS l)) of
        None \<Rightarrow> None
      | Some v \<Rightarrow> LibraryData_of v)"

definition handleCreateProject :: "clock \<Rightarrow> jsstring \<Rightarrow> jsstring \<Rightarrow> app_state \<Rightarrow> app_state option" where
  "handleCreateProject now name descr s =
     (let new_meta = \<lparr>meta_id = str ''PROJ_'' @ Number_toString (now 0),
                      meta_name = name,
                      description = descr,
                      createdAt = now 1,
                      lastModified = now 2\<rparr>
      in case deep_clone_library INITIAL_LIBRARY of
           None \<Rightarrow> None
         | Some lib \<Rightarrow>
             let newProject = \<lparr>meta = new_meta,
                                data = \<lparr>project = [], library = lib, versions = []\<rparr>\<rparr>
             in Some \<lparr>projects = newProject # projects s,
                      activeProjectId = Some (meta_id (meta newProject))\<rparr>)"

text \<open>The text of the one \<^verbatim>\<open>alert\<close> of the file (line 145), in Chinese: the project id
  exists already, try again or rename the file.\<close>

definition DUPLICATE_ID_ALERT :: jsstring where
  "DUPLICATE_ID_ALERT =
     [0x9879, 0x76EE] @ str '' ID '' @ [0x5DF2, 0x5B58, 0x5728, 0xFF0C,
       0x8BF7, 0x91CD, 0x8BD5, 0x6216, 0x91CD, 0x547D, 0x540D, 0x6587, 0x4EF6]"

text \<open>The new state, and the alert shown if any.\<close>

definition handleImportProject :: "ProjectFile \<Rightarrow> app_state \<Rightarrow> app_state \<times> jsstring option" where
  "handleImportProject fileData s =
     (if list_ex (\<lambda>p. meta_id (meta p) = meta_id (meta fileData)) (projects s)
      then (s, Some DUPLICATE_ID_ALERT)
      else (\<lparr>projects = fileData # projects s,
             activeProjectId = Some (meta_id (meta fileData))\<rparr>, None))"

definition handleDeleteProject :: "jsstring \<Rightarrow> app_state \<Rightarrow> app_state" where
  "handleDeleteProject i s =
     \<lparr>projects = filter (\<lambda>p. meta_id (meta p) \<noteq> i) (projects s),
      activeProjectId = (if activeProjectId s = Some i then None else activeProjectId s)\<rparr>"

definition handleOpenProject :: "jsstring \<Rightarrow> app_state \<Rightarrow> app_state" where
  "handleOpenProject i s = s\<lparr>activeProjectId := Some i\<rparr>"

definition handleBackToDashboard :: "app_state \<Rightarrow> app_state" where
  "handleBackToDashboard s = s\<lparr>activeProjectId := None\<rparr>"

subsection \<open>Active project data updaters (lines 168-203)\<close>

definition activeProject :: "app_state \<Rightarrow> ProjectFile option" where
  "activeProject s =
     (case activeProjectId s of
        None \<Rightarrow> None
      | Some a \<Rightarrow> find (\<lambda>p. meta_id (meta p) = a) (projects s))"

text \<open>\<^verbatim>\<open>!activeProjectId\<close>: \<^verbatim>\<open>null\<close> and the empty string are falsy.\<close>

definition falsy :: "jsstring option \<Rightarrow> bool" where
  "falsy a \<longleftrightarrow> (case a of None \<Rightarrow> True | Some i \<Rightarrow> i = [])"

text \<open>
  The \<^verbatim>\<open>map\<close> of line 172, left to right; \<open>k\<close> counts the calls of \<^verbatim>\<open>Date.now()\<close>
  made so far, one for each project that has the active id.
\<close>

fun update_projects ::
  "clock \<Rightarrow> nat \<Rightarrow> jsstring \<Rightarrow> (ProjectData \<Rightarrow> ProjectData) \<Rightarrow> ProjectFile list \<Rightarrow> ProjectFile list"
where
  "update_projects now k a updater [] = []"
| "update_projects now k a updater (p # ps) =
     (if meta_id (meta p) \<noteq> a then p # update_projects now k a updater ps
      else
        (let newData = updater (data p)
         in p\<lparr>meta := (meta p)\<lparr>lastModified := now k\<rparr>, data := newData\<rparr>)
        # update_projects now (Suc k) a updater ps)"

definition updateActiveProjectData ::
  "clock \<Rightarrow> (ProjectData \<Rightarrow> ProjectData) \<Rightarrow> app_state \<Rightarrow> app_state"
where
  "updateActiveProjectData now updater s =
     (case activeProjectId s of
        None \<Rightarrow> s
      | Some a \<Rightarrow>
          if a = [] then s
          else s\<lparr>projects := update_projects now 0 a updater (projects s)\<rparr>)"

text \<open>\<^verbatim>\<open>React.SetStateAction\<close>: the new value, or a function of the previous one.\<close>

datatype 'a SetStateAction = NewValue 'a | FromPrevious "'a \<Rightarrow> 'a"

definition resolve :: "'a SetStateAction \<Rightarrow> 'a \<Rightarrow> 'a" where
  "resolve valueOrFn prev = (case valueOrFn of NewValue v \<Rightarrow> v | FromPrevious f \<Rightarrow> f prev)"

definition setProjectWrapper :: "clock \<Rightarrow> ProjectNode list SetStateAction \<Rightarrow> app_state \<Rightarrow> app_state" where
  "setProjectWrapper now valueOrFn =
     updateActiveProjectData now (\<lambda>d. d\<lparr>project := resolve valueOrFn (project d)\<rparr>)"

definition setLibraryWrapper :: "clock \<Rightarrow> LibraryData SetStateAction \<Rightarrow> app_state \<Rightarrow> app_state" where
  "setLibraryWrapper now valueOrFn =
     updateActiveProjectData now (\<lambda>d. d\<lparr>library := resolve valueOrFn (library d)\<rparr>)"

definition setVersionsWrapper :: "clock \<Rightarrow> ProjectVersion list SetStateAction \<Rightarrow> app_state \<Rightarrow> app_state" where
  "setVersionsWrapper now valueOrFn =
     updateActiveProjectData now (\<lambda>d. d\<lparr>versions := resolve valueOrFn (versions d)\<rparr>)"

subsection \<open>Concrete inputs\<close>

text \<open>
  Project Files, clocks and states at which the theorems below are evaluated.
  \<open>dangling_file\<close> is the document of the spec's last scenario: its first form
  lists a variable that its library has not.
\<close>

definition example_file :: "jsstring \<Rightarrow> int \<Rightarrow> ProjectFile" where
  "example_file i t =
     \<lparr>meta = \<lparr>meta_id = i, meta_name = str ''Trial'', description = [],
              createdAt = t, lastModified = t\<rparr>,
      data = \<lparr>project = [], library = INITIAL_LIBRARY, versions = []\<rparr>\<rparr>"

definition dangling_file :: ProjectFile where
  "dangling_file =
     \<lparr>meta = \<lparr>meta_id = str ''PROJ_1'', meta_name = str ''Imported'', description = [],
              createdAt = 1, lastModified = 1\<rparr>,
      data = \<lparr>project = [],
              library = \<lparr>variables = [],
                         forms = [\<lparr>form_id = str ''PK2'', form_name = str ''PK2'',
                                   form_type = Standard, variableIds = [str ''MISSING''],
                                   headerVariableIds = None, defaultRows = None\<rparr>]\<rparr>,
              versions = []\<rparr>\<rparr>"

definition one_project :: app_state where
  "one_project = \<lparr>projects = [example_file (str ''P1'') 5], activeProjectId = None\<rparr>"

definition two_projects :: app_state where
  "two_projects =
     \<lparr>projects = [example_file (str ''P1'') 5, example_file (str ''P2'') 6],
      activeProjectId = Some (str ''P2'')\<rparr>"

definition example_node :: jsval where
  "example_node =
     JObj [(str ''id'', JStr (str ''node_1'')),
           (str ''title'', JStr [0x8BBF, 0x89C6]),
           (str ''formId'', JStr (str ''PK'')),
           (str ''children'', JArr []),
           (str ''rows'', JArr [JObj [(str ''2'', JStr (str ''08:00'')),
                                      (str ''10'', JStr (str ''08:30'')),
                                      (str ''id'', JNum 1),
                                      (str ''PK_TIME'', JStr (str ''09:00''))]])]"

text \<open>
  A library with optional fields absent and optional fields present but empty, and a
  label with a quote, a backslash, a line feed and a lone surrogate.
\<close>

definition sparse_library :: LibraryData where
  "sparse_library =
     \<lparr>variables =
        [\<lparr>var_id = str ''A'', var_label = [0x22, 0x5C, 0x0A, 0xD800], var_type = TypeSelect,
          var_options = Some [], var_format = Some []\<rparr>,
         \<lparr>var_id = str ''B'', var_label = [], var_type = TypeText,
          var_options = None, var_format = None\<rparr>],
      forms =
        [\<lparr>form_id = str ''F'', form_name = [], form_type = Grid, variableIds = [],
          headerVariableIds = Some [], defaultRows = None\<rparr>]\<rparr>"

definition example_tree_file :: ProjectFile where
  "example_tree_file =
     \<lparr>meta = \<lparr>meta_id = str ''PROJ_1700000000000'', meta_name = str ''Trial'',
              description = [], createdAt = 1700000000000, lastModified = 1700000360000\<rparr>,
      data = \<lparr>project = [example_node], library = sparse_library,
              versions = [JObj [(str ''id'', JStr (str ''v1'')), (str ''createdAt'', JNum (- 1))]]\<rparr>\<rparr>"

definition ticking :: clock where
  "ticking k = 1000 + int k"

definition frozen :: clock where
  "frozen k = 1000"

text \<open>
  The state after two projects, named A and then B, were created from the empty
  Registry while the clock read 1000: both have the id \<^verbatim>\<open>PROJ_1000\<close>, B is the head
  of the list, and the id is the active one. \<open>example_edit\<close> is an edit of the tree.
\<close>

definition created_at_1000 :: "jsstring \<Rightarrow> ProjectFile" where
  "created_at_1000 name =
     \<lparr>meta = \<lparr>meta_id = str ''PROJ_1000'', meta_name = name, description = [],
              createdAt = 1000, lastModified = 1000\<rparr>,
      data = \<lparr>project = [], library = INITIAL_LIBRARY, versions = []\<rparr>\<rparr>"

definition same_id_projects :: app_state where
  "same_id_projects =
     \<lparr>projects = [created_at_1000 (str ''B''), created_at_1000 (str ''A'')],
      activeProjectId = Some (str ''PROJ_1000'')\<rparr>"

definition example_edit :: "ProjectData \<Rightarrow> ProjectData" where
  "example_edit d = d\<lparr>project := [JNull]\<rparr>"

section \<open>\<^verbatim>\<open>JSON.parse\<close> reads back what \<^verbatim>\<open>JSON.stringify\<close> writes\<close>

subsection \<open>Strings\<close>

lemma unat16_less: "unat (c :: 16 word) < 65536"
  using unsigned_less [of c, where 'a = nat] by simp

lemma unat_of_nat16: "k < 65536 \<Longrightarrow> unat (of_nat k :: 16 word) = k"
  by (simp add: unat_of_nat)

lemma hex_value_hex_digit: "n < 16 \<Longrightarrow> hex_value (hex_digit n) = Some n"
  unfolding hex_value_def hex_digit_def
  by (auto simp: word_le_nat_alt unat_of_nat16)

lemma hex_recompose:
  "4096 * ((k::nat) div 4096) + 256 * (k div 256 mod 16) + 16 * (k div 16 mod 16) + k mod 16 = k"
proof -
  have a: "k mod 256 = 16 * (k div 16 mod 16) + k mod 16"
    using mod_mult2_eq [of k 16 16] by simp
  have b: "k mod 4096 = 256 * (k div 256 mod 16) + k mod 256"
    using mod_mult2_eq [of k 256 16] by simp
  have c: "k = 4096 * (k div 4096) + k mod 4096"
    by simp
  show ?thesis using a b c by linarith
qed

lemma hex4_UnicodeEscape:
  "hex4 (hex_digit (unat c div 4096)) (hex_digit (unat c div 256 mod 16))
        (hex_digit (unat c div 16 mod 16)) (hex_digit (unat c mod 16)) = Some c"
proof -
  have a: "unat c div 4096 < 16" using unat16_less [of c] by simp
  show ?thesis
    unfolding hex4_def
    by (simp add: hex_value_hex_digit a hex_recompose)
qed

lemma parse_string_UnicodeEscape:
  "parse_string (UnicodeEscape c @ t) = cons_result c (parse_string t)"
  by (simp add: UnicodeEscape_def hex4_UnicodeEscape)

lemma parse_string_quote_unit:
  "parse_string (quote_unit c @ t) = cons_result c (parse_string t)"
  unfolding quote_unit_def
  by (simp add: parse_string_UnicodeEscape unescape_def)

lemma parse_string_surrogate:
  "is_high_surrogate c \<or> is_low_surrogate c \<Longrightarrow>
     parse_string (c # t) = cons_result c (parse_string t)"
  unfolding is_high_surrogate_def is_low_surrogate_def
  by (auto simp: word_le_nat_alt word_less_nat_alt)

lemma parse_string_quote_units:
  "parse_string (quote_units s @ 0x22 # rest) = Some (s, rest)"
proof (induction s rule: quote_units.induct)
  case 1
  show ?case by simp
next
  case (2 c)
  show ?case by (simp add: parse_string_quote_unit cons_result_def)
next
  case (3 c d cs)
  show ?case
  proof (cases "is_high_surrogate c \<and> is_low_surrogate d")
    case True
    then show ?thesis
      using 3 by (simp add: parse_string_surrogate cons_result_def del: parse_string.simps)
  next
    case False
    then have "quote_units (c # d # cs) = quote_unit c @ quote_units (d # cs)"
      by auto
    then show ?thesis
      using 3(2) False by (simp add: parse_string_quote_unit cons_result_def del: parse_string.simps quote_units.simps)
  qed
qed

subsection \<open>Integers\<close>

lemma unat_digit_unit: "d < 10 \<Longrightarrow> unat (digit_unit d) = 48 + d"
  unfolding digit_unit_def by (rule unat_of_nat16) simp

lemma is_digit_digit_unit: "d < 10 \<Longrightarrow> is_digit (digit_unit d)"
  by (simp add: is_digit_def word_le_nat_alt unat_digit_unit)

lemma digit_value_digit_unit: "d < 10 \<Longrightarrow> digit_value (digit_unit d) = d"
  by (simp add: digit_value_def unat_digit_unit)

lemma digit_unit_eq_zero: "d < 10 \<Longrightarrow> digit_unit d = 0x30 \<longleftrightarrow> d = 0"
  by (simp add: word_unat_eq_iff unat_digit_unit)

lemma digit_unit_not_minus: "d < 10 \<Longrightarrow> digit_unit d \<noteq> 0x2D"
  by (simp add: word_unat_eq_iff unat_digit_unit)

lemma read_digits_digits:
  "read_digits acc (digits n @ rest) = read_digits (acc * 10 ^ length (digits n) + n) rest"
proof (induction n arbitrary: acc rest rule: digits.induct)
  case (1 n)
  show ?case
  proof (cases "n < 10")
    case True
    then show ?thesis
      by (simp add: digits.simps [of n] is_digit_digit_unit digit_value_digit_unit mult.commute)
  next
    case False
    have "read_digits acc (digits n @ rest) =
          read_digits acc (digits (n div 10) @ digit_unit (n mod 10) # rest)"
      using False by (simp add: digits.simps [of n])
    also have "\<dots> = read_digits (acc * 10 ^ length (digits (n div 10)) + n div 10)
                       (digit_unit (n mod 10) # rest)"
      using False by (rule "1.IH")
    also have "\<dots> = read_digits (10 * (acc * 10 ^ length (digits (n div 10)) + n div 10) + n mod 10) rest"
      by (simp add: is_digit_digit_unit digit_value_digit_unit)
    also have "10 * (acc * 10 ^ length (digits (n div 10)) + n div 10) + n mod 10
               = acc * 10 ^ length (digits n) + n"
      using False by (simp add: digits.simps [of n] algebra_simps)
    finally show ?thesis .
  qed
qed

lemma read_digits_stop: "delimited r \<Longrightarrow> read_digits acc r = (acc, r)"
  by (cases r) (auto simp: delimited_def is_digit_def)

lemma integer_end_delimited:
  "delimited r \<Longrightarrow> integer_end neg n r = Some (if neg then - int n else int n, r)"
  by (cases r) (auto simp: delimited_def integer_end_def)

lemma digits_head:
  "0 < n \<Longrightarrow> \<exists>k t. digits n = digit_unit k # t \<and> 0 < k \<and> k < 10"
proof (induction n rule: digits.induct)
  case (1 n)
  show ?case
  proof (cases "n < 10")
    case True
    with 1(2) show ?thesis by (auto simp: digits.simps [of n])
  next
    case False
    then have "0 < n div 10" by simp
    with False 1(1) obtain k t where "digits (n div 10) = digit_unit k # t" "0 < k" "k < 10"
      by blast
    with False show ?thesis by (auto simp: digits.simps [of n])
  qed
qed

lemma parse_unsigned_digits:
  assumes "delimited r"
  shows "parse_unsigned neg (digits n @ r) = Some (if neg then - int n else int n, r)"
proof (cases "n = 0")
  case True
  then show ?thesis
    using assms
    by (simp add: digits.simps [of 0] digit_unit_def parse_unsigned_def integer_end_delimited)
next
  case False
  then obtain k t where d: "digits n = digit_unit k # t" "0 < k" "k < 10"
    using digits_head [of n] by auto
  have "read_digits 0 (digits n @ r) = (n, r)"
    using assms by (simp add: read_digits_digits read_digits_stop)
  then have "read_digits 0 (digit_unit k # t @ r) = (n, r)"
    using d by simp
  then show ?thesis
    using d assms
    by (simp add: parse_unsigned_def digit_unit_eq_zero is_digit_digit_unit
        integer_end_delimited del: read_digits.simps)
qed

lemma parse_number_Number_toString:
  assumes "delimited r"
  shows "parse_number (Number_toString i @ r) = Some (i, r)"
proof (cases "i < 0")
  case True
  then show ?thesis
    using assms by (simp add: Number_toString_def str_def parse_number_def parse_unsigned_digits)
next
  case False
  obtain k t where d: "digits (nat i) = k # t" "k \<noteq> 0x2D"
  proof (cases "nat i = 0")
    case True
    then show ?thesis using that by (simp add: digits.simps [of 0] digit_unit_def)
  next
    case False
    then show ?thesis using that digits_head [of "nat i"] digit_unit_not_minus by auto
  qed
  have "parse_unsigned False (digits (nat i) @ r) = Some (i, r)"
    using False assms by (simp add: parse_unsigned_digits)
  then show ?thesis
    using False d by (simp add: Number_toString_def parse_number_def)
qed

subsection \<open>Values\<close>

lemma skip_ws_Cons: "\<not> is_ws c \<Longrightarrow> skip_ws (c # cs) = c # cs"
  by (simp add: skip_ws_def)

lemma Number_toString_head:
  "\<exists>h t. Number_toString i = h # t \<and> (h = 0x2D \<or> is_digit h)"
proof (cases "i < 0")
  case True
  then show ?thesis by (simp add: Number_toString_def str_def)
next
  case False
  show ?thesis
  proof (cases "nat i = 0")
    case True
    then show ?thesis
      using False by (simp add: Number_toString_def digits.simps [of 0] is_digit_digit_unit)
  next
    case False
    then obtain k t where "digits (nat i) = digit_unit k # t" "k < 10"
      using digits_head [of "nat i"] by auto
    then show ?thesis
      using \<open>\<not> i < 0\<close> by (simp add: Number_toString_def is_digit_digit_unit)
  qed
qed

lemma parse_value_number:
  assumes "delimited r"
  shows "parse_value (Suc n) (Number_toString i @ r) = Some (JNum i, r)"
proof -
  obtain h t where ht: "Number_toString i = h # t" "h = 0x2D \<or> is_digit h"
    using Number_toString_head by blast
  have p: "parse_number (h # t @ r) = Some (i, r)"
    using parse_number_Number_toString [OF assms, of i] ht by simp
  from ht(2) have "\<not> is_ws h \<and> h \<noteq> 0x5B \<and> h \<noteq> 0x7B \<and> h \<noteq> 0x22 \<and> h \<noteq> 0x74 \<and> h \<noteq> 0x66 \<and> h \<noteq> 0x6E"
    by (auto simp: is_digit_def is_ws_def)
  then show ?thesis
    using ht(1) p by (simp add: skip_ws_Cons)
qed

lemma parse_value_string:
  "parse_value (Suc n) (QuoteJSONString s @ r) = Some (JStr s, r)"
  by (simp add: QuoteJSONString_def skip_ws_Cons is_ws_def parse_string_quote_units)

lemma parse_value_null: "parse_value (Suc n) (str ''null'' @ r) = Some (JNull, r)"
  by (simp add: str_def skip_ws_Cons is_ws_def parse_literal_def)

lemma parse_value_true: "parse_value (Suc n) (str ''true'' @ r) = Some (JBool True, r)"
  by (simp add: str_def skip_ws_Cons is_ws_def parse_literal_def)

lemma parse_value_false: "parse_value (Suc n) (str ''false'' @ r) = Some (JBool False, r)"
  by (simp add: str_def skip_ws_Cons is_ws_def parse_literal_def)

lemma stringify_head:
  "\<exists>h t. JSON_stringify v = h # t \<and> \<not> is_ws h \<and> h \<noteq> 0x5D \<and> h \<noteq> 0x7D"
proof (cases v)
  case (JNum i)
  obtain h t where "Number_toString i = h # t" "h = 0x2D \<or> is_digit h"
    using Number_toString_head by blast
  then show ?thesis using JNum by (auto simp: is_digit_def is_ws_def)
qed (auto simp: str_def is_ws_def QuoteJSONString_def)

lemma stringify_elements_head:
  "vs \<noteq> [] \<Longrightarrow> \<exists>h t. stringify_elements vs = h # t \<and> \<not> is_ws h \<and> h \<noteq> 0x5D"
proof (cases vs)
  case (Cons v ws)
  then show ?thesis using stringify_head [of v] by (cases ws) auto
qed simp

lemma stringify_members_head:
  "ms \<noteq> [] \<Longrightarrow> \<exists>t. stringify_members ms = 0x22 # t"
proof (cases ms)
  case (Cons m ws)
  then show ?thesis by (cases m; cases ws) (auto simp: QuoteJSONString_def)
qed simp

lemma precedes_trans: "precedes c a \<Longrightarrow> \<not> precedes b a \<Longrightarrow> precedes c b"
  by (auto simp: precedes_def split: option.splits)

lemma property_order_before:
  "property_order (ks @ k # rest) \<Longrightarrow> q \<in> set ks \<Longrightarrow> \<not> precedes k q"
proof (induction ks arbitrary: q)
  case Nil
  then show ?case by simp
next
  case (Cons q0 ks)
  show ?case
  proof (cases ks)
    case Nil
    then show ?thesis using Cons.prems by simp
  next
    case (Cons q1 ks')
    then have o: "\<not> precedes q1 q0" "property_order (ks @ k # rest)"
      using Cons.prems(1) by simp_all
    then have later: "\<And>q. q \<in> set ks \<Longrightarrow> \<not> precedes k q"
      using Cons.IH by blast
    then have "\<not> precedes k q1"
      using Cons by simp
    then have "\<not> precedes k q0"
      using o(1) precedes_trans by blast
    then show ?thesis
      using later Cons.prems(2) by auto
  qed
qed

lemma set_property_new:
  "k \<notin> fst ` set acc \<Longrightarrow> (\<And>q. q \<in> fst ` set acc \<Longrightarrow> \<not> precedes k q) \<Longrightarrow>
     set_property acc k v = acc @ [(k, v)]"
  by (induction acc) auto

lemma set_property_fresh:
  assumes "distinct (map fst (acc @ (k, v) # ms))"
    and "property_order (map fst (acc @ (k, v) # ms))"
  shows "set_property acc k v = acc @ [(k, v)]"
proof (rule set_property_new)
  show "k \<notin> fst ` set acc"
    using assms(1) by auto
  show "\<not> precedes k q" if "q \<in> fst ` set acc" for q
    using assms(2) that property_order_before [of "map fst acc" k "map fst ms" q] by simp
qed

lemma parse_elements_last:
  "parse_value n s = Some (v, 0x5D # r) \<Longrightarrow>
     parse_elements (Suc n) acc s = Some (JArr (acc @ [v]), r)"
  by (simp add: skip_ws_Cons is_ws_def)

lemma parse_elements_more:
  "parse_value n s = Some (v, 0x2C # r) \<Longrightarrow>
     parse_elements (Suc n) acc s = parse_elements n (acc @ [v]) r"
  by (simp add: skip_ws_Cons is_ws_def)

lemma parse_members_last:
  "parse_value n s = Some (v, 0x7D # r) \<Longrightarrow>
     parse_members (Suc n) acc (QuoteJSONString k @ 0x3A # s) = Some (JObj (set_property acc k v), r)"
  by (simp add: QuoteJSONString_def skip_ws_Cons is_ws_def parse_string_quote_units)

lemma parse_members_more:
  "parse_value n s = Some (v, 0x2C # r) \<Longrightarrow>
     parse_members (Suc n) acc (QuoteJSONString k @ 0x3A # s) = parse_members n (set_property acc k v) r"
  by (simp add: QuoteJSONString_def skip_ws_Cons is_ws_def parse_string_quote_units)

lemma parse_value_array:
  "\<not> is_ws h \<Longrightarrow> h \<noteq> 0x5D \<Longrightarrow> parse_value (Suc n) (0x5B # h # t) = parse_elements n [] (h # t)"
  by (simp add: skip_ws_Cons is_ws_def)

lemma parse_value_object:
  "parse_value (Suc n) (0x7B # 0x22 # t) = parse_members n [] (0x22 # t)"
  by (simp add: skip_ws_Cons is_ws_def)

lemma delimited_simps [simp]:
  "delimited []" "delimited (0x2C # r)" "delimited (0x5D # r)" "delimited (0x7D # r)"
  by (simp_all add: delimited_def)

lemma stringify_nonempty: "JSON_stringify v \<noteq> []"
  using stringify_head [of v] by auto

lemma parse_stringify:
  "wf_jsval v \<Longrightarrow> delimited r \<Longrightarrow> length (JSON_stringify v) \<le> n \<Longrightarrow>
     parse_value n (JSON_stringify v @ r) = Some (v, r)"
  "vs \<noteq> [] \<Longrightarrow> wf_elements vs \<Longrightarrow> length (stringify_elements vs) < n \<Longrightarrow>
     parse_elements n acc (stringify_elements vs @ 0x5D # r) = Some (JArr (acc @ vs), r)"
  "ms \<noteq> [] \<Longrightarrow> wf_members ms \<Longrightarrow> distinct (map fst (acc' @ ms)) \<Longrightarrow>
     property_order (map fst (acc' @ ms)) \<Longrightarrow> length (stringify_members ms) < n \<Longrightarrow>
     parse_members n acc' (stringify_members ms @ 0x7D # r) = Some (JObj (acc' @ ms), r)"
proof (induction v and vs and ms arbitrary: n r and n acc r and n acc' r
    rule: JSON_stringify_stringify_elements_stringify_members.induct)
  case 1
  then obtain n' where "n = Suc n'"
    using stringify_nonempty [of JNull] by (cases n) auto
  then show ?case by (simp add: parse_value_null del: parse_value.simps)
next
  case (2 b)
  then obtain n' where "n = Suc n'"
    using stringify_nonempty [of "JBool b"] by (cases n) auto
  then show ?case by (simp add: parse_value_true parse_value_false del: parse_value.simps)
next
  case (3 i)
  then obtain n' where "n = Suc n'"
    using stringify_nonempty [of "JNum i"] by (cases n) auto
  then show ?case using 3 by (simp add: parse_value_number del: parse_value.simps)
next
  case (4 s)
  then obtain n' where "n = Suc n'"
    using stringify_nonempty [of "JStr s"] by (cases n) auto
  then show ?case by (simp add: parse_value_string del: parse_value.simps)
next
  case (5 vs)
  then obtain n' where n: "n = Suc n'" by (cases n) (auto simp: str_def)
  show ?case
  proof (cases "vs = []")
    case True
    then show ?thesis using n by (simp add: str_def skip_ws_Cons is_ws_def)
  next
    case False
    then obtain h t where ht: "stringify_elements vs = h # t" "\<not> is_ws h" "h \<noteq> 0x5D"
      using stringify_elements_head by blast
    have len: "length (stringify_elements vs) < n'"
      using 5(4) n by (simp add: str_def)
    have "parse_elements n' [] (stringify_elements vs @ 0x5D # r) = Some (JArr ([] @ vs), r)"
      using False 5(2) len by (intro "5.IH") simp_all
    then show ?thesis
      using n ht by (simp add: str_def parse_value_array del: parse_value.simps parse_elements.simps)
  qed
next
  case (6 ms)
  then obtain n' where n: "n = Suc n'" by (cases n) (auto simp: str_def)
  show ?case
  proof (cases "ms = []")
    case True
    then show ?thesis using n by (simp add: str_def skip_ws_Cons is_ws_def)
  next
    case False
    then obtain t where ht: "stringify_members ms = 0x22 # t"
      using stringify_members_head by blast
    have len: "length (stringify_members ms) < n'"
      using 6(4) n by (simp add: str_def)
    have "parse_members n' [] (stringify_members ms @ 0x7D # r) = Some (JObj ([] @ ms), r)"
      using False 6(2) len by (intro "6.IH") simp_all
    then show ?thesis
      using n ht by (simp add: str_def parse_value_object del: parse_value.simps parse_members.simps)
  qed
next
  case 7
  then show ?case by simp
next
  case (8 v)
  then obtain n' where n: "n = Suc n'" by (cases n) auto
  have "parse_value n' (JSON_stringify v @ 0x5D # r) = Some (v, 0x5D # r)"
    using 8(3,4) n by (intro "8.IH") simp_all
  then have "parse_elements (Suc n') acc (JSON_stringify v @ 0x5D # r) = Some (JArr (acc @ [v]), r)"
    by (rule parse_elements_last)
  then show ?case
    using n by (simp del: parse_elements.simps)
next
  case (9 v w vs)
  then obtain n' where n: "n = Suc n'" by (cases n) auto
  let ?rest = "stringify_elements (w # vs) @ 0x5D # r"
  have a: "parse_value n' (JSON_stringify v @ 0x2C # ?rest) = Some (v, 0x2C # ?rest)"
    using 9(4,5) n by (intro "9.IH"(1)) (simp_all add: str_def)
  have b: "parse_elements n' (acc @ [v]) ?rest = Some (JArr ((acc @ [v]) @ w # vs), r)"
    using 9(4,5) n by (intro "9.IH"(2)) (simp_all add: str_def)
  have "parse_elements n acc (stringify_elements (v # w # vs) @ 0x5D # r)
        = parse_elements (Suc n') acc (JSON_stringify v @ 0x2C # ?rest)"
    by (simp add: n str_def del: parse_elements.simps)
  also have "\<dots> = parse_elements n' (acc @ [v]) ?rest"
    using a by (rule parse_elements_more)
  also have "\<dots> = Some (JArr (acc @ v # w # vs), r)"
    using b by simp
  finally show ?case .
next
  case 10
  then show ?case by simp
next
  case (11 k v)
  then obtain n' where n: "n = Suc n'" by (cases n) auto
  have "parse_value n' (JSON_stringify v @ 0x7D # r) = Some (v, 0x7D # r)"
    using "11.prems"(2,5) n by (intro "11.IH") (simp_all add: str_def)
  then have "parse_members (Suc n') acc' (QuoteJSONString k @ 0x3A # JSON_stringify v @ 0x7D # r)
             = Some (JObj (set_property acc' k v), r)"
    by (rule parse_members_last)
  moreover have "set_property acc' k v = acc' @ [(k, v)]"
    using "11.prems"(3,4) by (rule set_property_fresh)
  ultimately show ?case
    using n by (simp add: str_def del: parse_members.simps)
next
  case (12 k v m ms)
  then obtain n' where n: "n = Suc n'" by (cases n) auto
  let ?rest = "stringify_members (m # ms) @ 0x7D # r"
  have a: "parse_value n' (JSON_stringify v @ 0x2C # ?rest) = Some (v, 0x2C # ?rest)"
    using "12.prems"(2,5) n by (intro "12.IH"(1)) (simp_all add: str_def)
  have f: "set_property acc' k v = acc' @ [(k, v)]"
    using "12.prems"(3,4) by (rule set_property_fresh)
  have b: "parse_members n' (acc' @ [(k, v)]) ?rest = Some (JObj ((acc' @ [(k, v)]) @ m # ms), r)"
    using "12.prems"(2,3,4,5) n by (intro "12.IH"(2)) (simp_all add: str_def)
  have "parse_members n acc' (stringify_members ((k, v) # m # ms) @ 0x7D # r)
        = parse_members (Suc n') acc' (QuoteJSONString k @ 0x3A # JSON_stringify v @ 0x2C # ?rest)"
    by (simp add: n str_def del: parse_members.simps)
  also have "\<dots> = parse_members n' (set_property acc' k v) ?rest"
    using a by (rule parse_members_more)
  also have "\<dots> = Some (JObj (acc' @ (k, v) # m # ms), r)"
    using b f by simp
  finally show ?case .
qed

lemma JSON_roundtrip: "wf_jsval v \<Longrightarrow> JSON_parse (JSON_stringify v) = Some v"
  using parse_stringify(1) [of v "[]" "Suc (length (JSON_stringify v))"]
  by (simp add: JSON_parse_def skip_ws_def)

subsection \<open>Project Files as JSON\<close>

lemma unat_of_char: "unat (of_char c :: 16 word) = of_char c"
proof -
  have "(of_char c :: nat) < 256"
    using of_char_mod_256 [of c, where 'a = nat]
    by (metis mod_less_divisor zero_less_numeral)
  then have "(of_char c :: nat) < 65536" by linarith
  then have "unat (of_nat (of_char c) :: 16 word) = of_char c"
    by (rule unat_of_nat16)
  then show ?thesis by (simp add: of_nat_of_char)
qed

lemma of_char_word_eq_iff: "(of_char c :: 16 word) = of_char d \<longleftrightarrow> c = d"
proof
  assume "(of_char c :: 16 word) = of_char d"
  then have "unat (of_char c :: 16 word) = unat (of_char d :: 16 word)" by simp
  then show "c = d" by (simp add: unat_of_char)
qed simp

lemma str_eq_iff [simp]: "str a = str b \<longleftrightarrow> a = b"
  unfolding str_def
  by (rule inj_map_eq_map) (simp add: inj_on_def of_char_word_eq_iff)

lemma wf_elements_map: "(\<And>x. wf_jsval (f x)) \<Longrightarrow> wf_elements (map f xs)"
  by (induction xs) auto

lemma collect_map: "(\<And>x. g (f x) = Some x) \<Longrightarrow> collect g (map f xs) = Some xs"
  by (induction xs) auto

lemma collect_Some [simp]: "collect Some xs = Some xs"
  by (induction xs) auto

lemma as_strings [simp]: "as_array as_string (strings_toJS xs) = Some xs"
  by (simp add: as_array_def strings_toJS_def as_string_def collect_map)

lemma wf_strings [simp]: "wf_jsval (strings_toJS xs)"
  by (simp add: strings_toJS_def wf_elements_map)

lemma array_index_letter:
  "\<not> is_digit (of_char c) \<Longrightarrow> array_index (str (c # cs)) = None"
  by (simp add: array_index_def str_def)

lemma property_order_names:
  "list_all (\<lambda>k. array_index k = None) ks \<Longrightarrow> property_order ks"
  by (induction ks rule: property_order.induct) (simp_all add: precedes_def)

lemma field_names [simp]:
  "array_index (str ''id'') = None" "array_index (str ''label'') = None"
  "array_index (str ''type'') = None" "array_index (str ''options'') = None"
  "array_index (str ''format'') = None" "array_index (str ''name'') = None"
  "array_index (str ''headerVariableIds'') = None" "array_index (str ''variableIds'') = None"
  "array_index (str ''defaultRows'') = None" "array_index (str ''variables'') = None"
  "array_index (str ''forms'') = None" "array_index (str ''description'') = None"
  "array_index (str ''createdAt'') = None" "array_index (str ''lastModified'') = None"
  "array_index (str ''project'') = None" "array_index (str ''library'') = None"
  "array_index (str ''versions'') = None" "array_index (str ''meta'') = None"
  "array_index (str ''data'') = None"
  by (simp_all add: array_index_def str_def is_digit_def)

lemma VariableType_roundtrip [simp]: "VariableType_of (VariableType_toJS t) = Some t"
  by (cases t) (simp_all add: VariableType_of_def VariableType_toJS_def as_string_def)

lemma FormType_roundtrip [simp]: "FormType_of (FormType_toJS t) = Some t"
  by (cases t) (simp_all add: FormType_of_def FormType_toJS_def as_string_def)

lemma wf_VariableType [simp]: "wf_jsval (VariableType_toJS t)"
  by (simp add: VariableType_toJS_def)

lemma wf_FormType [simp]: "wf_jsval (FormType_toJS t)"
  by (simp add: FormType_toJS_def)

lemma Variable_roundtrip [simp]: "Variable_of (Variable_toJS v) = Some v"
  by (cases "var_options v"; cases "var_format v")
     (simp_all add: Variable_of_def Variable_toJS_def required_def optionally_def
        get_property_def optional_def as_string_def)

lemma wf_Variable [simp]: "wf_jsval (Variable_toJS v)"
  by (cases "var_options v"; cases "var_format v")
     (simp_all add: Variable_toJS_def optional_def precedes_def)

lemma Form_roundtrip [simp]: "Form_of (Form_toJS f) = Some f"
  by (cases "headerVariableIds f"; cases "defaultRows f")
     (simp_all add: Form_of_def Form_toJS_def required_def optionally_def
        get_property_def optional_def as_string_def)

lemma wf_Form [simp]: "wf_jsval (Form_toJS f)"
  by (cases "headerVariableIds f"; cases "defaultRows f")
     (simp_all add: Form_toJS_def optional_def precedes_def)

lemma LibraryData_roundtrip [simp]: "LibraryData_of (LibraryData_toJS l) = Some l"
  by (simp add: LibraryData_of_def LibraryData_toJS_def required_def get_property_def
      as_array_def collect_map)

lemma wf_LibraryData [simp]: "wf_jsval (LibraryData_toJS l)"
  by (simp add: LibraryData_toJS_def wf_elements_map precedes_def)

lemma ProjectMeta_roundtrip [simp]: "ProjectMeta_of (ProjectMeta_toJS m) = Some m"
  by (simp add: ProjectMeta_of_def ProjectMeta_toJS_def required_def get_property_def
      as_string_def as_number_def)

lemma ProjectData_roundtrip [simp]: "ProjectData_of (ProjectData_toJS d) = Some d"
  by (simp add: ProjectData_of_def ProjectData_toJS_def required_def get_property_def
      as_array_def)

lemma ProjectFile_roundtrip [simp]: "ProjectFile_of (ProjectFile_toJS p) = Some p"
  by (simp add: ProjectFile_of_def ProjectFile_toJS_def required_def get_property_def)

lemma wf_ProjectFile: "valid_ProjectFile p \<Longrightarrow> wf_jsval (ProjectFile_toJS p)"
  by (simp add: valid_ProjectFile_def ProjectFile_toJS_def ProjectMeta_toJS_def
      ProjectData_toJS_def precedes_def)

lemma deep_clone_library_eq: "deep_clone_library l = Some l"
  by (simp add: deep_clone_library_def JSON_roundtrip)

section \<open>Creating, importing and deleting projects\<close>

lemma list_ex_ids: "list_ex (\<lambda>p. meta_id (meta p) = i) ps \<longleftrightarrow> i \<in> set (project_ids ps)"
  by (auto simp: project_ids_def list_ex_iff)

lemma dangling_file_invalid: "\<not> references_resolve (library (data dangling_file))"
  by (simp add: dangling_file_def references_resolve_def dangling_def referenced_ids_def
      variable_ids_def)

lemma Number_toString_1000: "Number_toString 1000 = str ''1000''"
  by (simp add: Number_toString_def digits.simps digit_unit_def str_def)

text \<open>
  C1, as the code has it. The claim says that a document whose library is
  referentially invalid (a form lists a variable the library has not) is refused for
  that reason. \<^verbatim>\<open>handleImportProject\<close> never looks at the library: the one check it
  makes is the duplicate id. The document of the spec's scenario, imported into the
  empty Registry, is admitted and made the active project.
\<close>

theorem C1_invalid_library_admitted:
  "\<not> references_resolve (library (data dangling_file)) \<and>
   handleImportProject dangling_file initial_state =
     (\<lparr>projects = [dangling_file], activeProjectId = Some (str ''PROJ_1'')\<rparr>, None)"
  by (simp add: dangling_file_def references_resolve_def dangling_def referenced_ids_def
      variable_ids_def handleImportProject_def initial_state_def)

text \<open>
  C1, amended: a document whose library is referentially invalid is admitted whole
  (itself, unchanged, at the head of the list and as the active project, with no
  alert) when its \<^verbatim>\<open>meta.id\<close> is new to the Registry, and refused with the
  duplicate-id alert and the state unchanged when it is not. It is never admitted in
  part.
\<close>

theorem C1_import_ignores_library:
  assumes "\<not> references_resolve (library (data fileData))"
  shows "(meta_id (meta fileData) \<notin> set (project_ids (projects s)) \<longrightarrow>
            handleImportProject fileData s =
              (\<lparr>projects = fileData # projects s,
                activeProjectId = Some (meta_id (meta fileData))\<rparr>, None)) \<and>
         (meta_id (meta fileData) \<in> set (project_ids (projects s)) \<longrightarrow>
            handleImportProject fileData s = (s, Some DUPLICATE_ID_ALERT))"
  by (simp add: handleImportProject_def list_ex_ids)

theorem C1_import_ignores_library_witness:
  "handleImportProject dangling_file initial_state =
     (\<lparr>projects = [dangling_file], activeProjectId = Some (meta_id (meta dangling_file))\<rparr>, None) \<and>
   handleImportProject dangling_file \<lparr>projects = [dangling_file], activeProjectId = None\<rparr> =
     (\<lparr>projects = [dangling_file], activeProjectId = None\<rparr>, Some DUPLICATE_ID_ALERT)"
  using C1_import_ignores_library [OF dangling_file_invalid, of initial_state]
    C1_import_ignores_library [OF dangling_file_invalid,
      of "\<lparr>projects = [dangling_file], activeProjectId = None\<rparr>"]
  by (simp add: project_ids_def initial_state_def)

text \<open>
  C2: for every imported document and every state, if the document's \<^verbatim>\<open>meta.id\<close> is
  the \<^verbatim>\<open>meta.id\<close> of a project of the Registry, the import is refused (the alert is
  shown) and the state is unchanged; otherwise the document is admitted: it becomes
  the head of the list and the active project.
\<close>

theorem C2_import_duplicate_refused:
  "(meta_id (meta fileData) \<in> set (project_ids (projects s)) \<longrightarrow>
      handleImportProject fileData s = (s, Some DUPLICATE_ID_ALERT)) \<and>
   (meta_id (meta fileData) \<notin> set (project_ids (projects s)) \<longrightarrow>
      handleImportProject fileData s =
        (\<lparr>projects = fileData # projects s,
          activeProjectId = Some (meta_id (meta fileData))\<rparr>, None))"
  by (simp add: handleImportProject_def list_ex_ids)

theorem C2_import_duplicate_refused_witness:
  "handleImportProject (example_file (str ''P1'') 7)
      \<lparr>projects = [example_file (str ''P1'') 5], activeProjectId = None\<rparr>
    = (\<lparr>projects = [example_file (str ''P1'') 5], activeProjectId = None\<rparr>,
       Some DUPLICATE_ID_ALERT) \<and>
   handleImportProject (example_file (str ''P2'') 7)
      \<lparr>projects = [example_file (str ''P1'') 5], activeProjectId = None\<rparr>
    = (\<lparr>projects = [example_file (str ''P2'') 7, example_file (str ''P1'') 5],
        activeProjectId = Some (str ''P2'')\<rparr>, None)"
  using C2_import_duplicate_refused [of "example_file (str ''P1'') 7"
          "\<lparr>projects = [example_file (str ''P1'') 5], activeProjectId = None\<rparr>"]
        C2_import_duplicate_refused [of "example_file (str ''P2'') 7"
          "\<lparr>projects = [example_file (str ''P1'') 5], activeProjectId = None\<rparr>"]
  by (simp add: project_ids_def example_file_def)

text \<open>
  C4, as the code has it. The claim says that a new project has \<^verbatim>\<open>createdAt\<close> equal
  to \<^verbatim>\<open>lastModified\<close>. The handler reads the clock three times, for the id, for
  \<^verbatim>\<open>createdAt\<close> and for \<^verbatim>\<open>lastModified\<close>; when the clock advances between the reads
  (here by a millisecond at every read, from 1000), the two timestamps differ.
\<close>

theorem C4_timestamps_differ:
  "handleCreateProject ticking (str ''Trial'') (str ''first'') initial_state =
     Some \<lparr>projects =
             [\<lparr>meta = \<lparr>meta_id = str ''PROJ_1000'',
                       meta_name = str ''Trial'',
                       description = str ''first'',
                       createdAt = 1001,
                       lastModified = 1002\<rparr>,
               data = \<lparr>project = [], library = INITIAL_LIBRARY, versions = []\<rparr>\<rparr>],
           activeProjectId = Some (str ''PROJ_1000'')\<rparr>"
  by (simp add: handleCreateProject_def deep_clone_library_eq ticking_def initial_state_def
      Number_toString_1000) (simp add: str_def)

text \<open>
  C4, amended: for every name and description, whatever the clock reads and whatever
  the state, creating a project returns (no exception), and puts at the head of the
  list, as the active project, a Project File whose tree and versions are empty,
  whose library is equal to \<^verbatim>\<open>INITIAL_LIBRARY\<close> (it is what \<^verbatim>\<open>JSON.parse\<close> reads from
  the text \<^verbatim>\<open>JSON.stringify\<close> writes for it, a copy that shares nothing with the
  constant), and whose meta carries the given name and description, the id
  \<^verbatim>\<open>PROJ_\<close> followed by the first reading of the clock, and as \<^verbatim>\<open>createdAt\<close> and
  \<^verbatim>\<open>lastModified\<close> the second and the third reading: equal when the clock does not
  advance between the two.
\<close>

theorem C4_create_project:
  "handleCreateProject now name descr s =
     Some \<lparr>projects =
             \<lparr>meta = \<lparr>meta_id = str ''PROJ_'' @ Number_toString (now 0),
                      meta_name = name,
                      description = descr,
                      createdAt = now 1,
                      lastModified = now 2\<rparr>,
              data = \<lparr>project = [], library = INITIAL_LIBRARY, versions = []\<rparr>\<rparr>
             # projects s,
           activeProjectId = Some (str ''PROJ_'' @ Number_toString (now 0))\<rparr>"
  by (simp add: handleCreateProject_def deep_clone_library_eq)

text \<open>
  C6, where the code fails it. The claim says that create-project always assigns an
  id that no project of the list has. The id is \<^verbatim>\<open>PROJ_\<close> and the reading of the
  clock, and the handler, unlike \<^verbatim>\<open>handleImportProject\<close>, does not look for it in the
  list: two projects created within one millisecond (the clock reads 1000 both
  times) share their id, and so do an imported project with the id \<^verbatim>\<open>PROJ_1000\<close>
  and a project created when the clock reads 1000.
\<close>

theorem C6_create_collision:
  "map_option (\<lambda>s. project_ids (projects s))
     (Option.bind (handleCreateProject frozen (str ''A'') [] initial_state)
        (handleCreateProject frozen (str ''B'') []))
   = Some [str ''PROJ_1000'', str ''PROJ_1000''] \<and>
   map_option (\<lambda>s. project_ids (projects s))
     (handleCreateProject frozen (str ''A'') []
        (fst (handleImportProject (example_file (str ''PROJ_1000'') 5) initial_state)))
   = Some [str ''PROJ_1000'', str ''PROJ_1000'']"
  by (simp add: handleCreateProject_def deep_clone_library_eq frozen_def initial_state_def
      project_ids_def Number_toString_1000 handleImportProject_def example_file_def)
     (simp add: str_def)

section \<open>The built-in library\<close>

text \<open>
  C7: \<^verbatim>\<open>INITIAL_LIBRARY\<close> satisfies the invariants of a Library Store: its variable
  ids are pairwise different, so are its form ids, every id of a form's
  \<^verbatim>\<open>variableIds\<close> and \<^verbatim>\<open>headerVariableIds\<close> is the id of one of its variables, and
  every variable of type select or radio has a non-empty list of options.
\<close>

theorem C7_initial_library_invariants: "library_invariants INITIAL_LIBRARY"
  by (simp add: library_invariants_def INITIAL_LIBRARY_def variable_ids_def form_ids_def
      references_resolve_def dangling_def referenced_ids_def options_present_def
      needs_options_def has_options_def)

section \<open>Editing the active project\<close>

lemma length_update_projects [simp]:
  "length (update_projects now k a u ps) = length ps"
  by (induction ps arbitrary: k) (auto simp: Let_def)

lemma update_projects_other:
  "i < length ps \<Longrightarrow> meta_id (meta (ps ! i)) \<noteq> a \<Longrightarrow>
     update_projects now k a u ps ! i = ps ! i"
proof (induction ps arbitrary: i k)
  case Nil
  then show ?case by simp
next
  case (Cons p ps)
  then show ?case by (cases i) (auto simp: Let_def)
qed

lemma update_projects_meta:
  "i < length ps \<Longrightarrow>
     meta_id (meta (update_projects now k a u ps ! i)) = meta_id (meta (ps ! i)) \<and>
     meta_name (meta (update_projects now k a u ps ! i)) = meta_name (meta (ps ! i)) \<and>
     description (meta (update_projects now k a u ps ! i)) = description (meta (ps ! i)) \<and>
     createdAt (meta (update_projects now k a u ps ! i)) = createdAt (meta (ps ! i))"
proof (induction ps arbitrary: i k)
  case Nil
  then show ?case by simp
next
  case (Cons p ps)
  then show ?case by (cases i) (auto simp: Let_def)
qed

lemma find_update_projects:
  "find (\<lambda>p. meta_id (meta p) = a) ps = Some p \<Longrightarrow>
     find (\<lambda>p. meta_id (meta p) = a) (update_projects now k a u ps)
       = Some (p\<lparr>meta := (meta p)\<lparr>lastModified := now k\<rparr>, data := u (data p)\<rparr>)"
  by (induction ps arbitrary: k) (auto simp: Let_def split: if_splits)

lemma activeProject_update:
  assumes "activeProject s = Some p" "\<not> falsy (activeProjectId s)"
  shows "activeProject (updateActiveProjectData now u s)
           = Some (p\<lparr>meta := (meta p)\<lparr>lastModified := now 0\<rparr>, data := u (data p)\<rparr>)"
proof -
  obtain a where a: "activeProjectId s = Some a" "a \<noteq> []"
    using assms(2) by (cases "activeProjectId s") (auto simp: falsy_def)
  then have "find (\<lambda>p. meta_id (meta p) = a) (projects s) = Some p"
    using assms(1) by (simp add: activeProject_def)
  then show ?thesis
    using a by (simp add: activeProject_def updateActiveProjectData_def find_update_projects)
qed

text \<open>
  C5: for every edit of the active project's tree, library or versions through one
  of the three setter wrappers, the active project of the resulting state is the
  active project of before with the edit applied to its data and with
  \<^verbatim>\<open>meta.lastModified\<close> set to the time of the edit, the reading of \<^verbatim>\<open>Date.now()\<close>
  that the edit makes for it. The wrappers are handed to the editor only while
  \<^verbatim>\<open>activeProjectId\<close> is truthy and names a project (line 208).
\<close>

theorem C5_edit_bumps_lastModified:
  assumes "activeProject s = Some p" and "\<not> falsy (activeProjectId s)"
  shows "activeProject (setProjectWrapper now tree s)
           = Some (p\<lparr>meta := (meta p)\<lparr>lastModified := now 0\<rparr>,
                     data := (data p)\<lparr>project := resolve tree (project (data p))\<rparr>\<rparr>) \<and>
         activeProject (setLibraryWrapper now lib s)
           = Some (p\<lparr>meta := (meta p)\<lparr>lastModified := now 0\<rparr>,
                     data := (data p)\<lparr>library := resolve lib (library (data p))\<rparr>\<rparr>) \<and>
         activeProject (setVersionsWrapper now vers s)
           = Some (p\<lparr>meta := (meta p)\<lparr>lastModified := now 0\<rparr>,
                     data := (data p)\<lparr>versions := resolve vers (versions (data p))\<rparr>\<rparr>)"
  using assms
  by (simp add: setProjectWrapper_def setLibraryWrapper_def setVersionsWrapper_def
      activeProject_update)

theorem C5_edit_bumps_lastModified_witness:
  "activeProject (setProjectWrapper ticking (NewValue [JNull]) two_projects)
     = Some \<lparr>meta = \<lparr>meta_id = str ''P2'', meta_name = str ''Trial'', description = [],
                      createdAt = 6, lastModified = 1000\<rparr>,
              data = \<lparr>project = [JNull], library = INITIAL_LIBRARY, versions = []\<rparr>\<rparr> \<and>
   activeProject (setLibraryWrapper ticking (FromPrevious (\<lambda>l. l\<lparr>forms := []\<rparr>)) two_projects)
     = Some \<lparr>meta = \<lparr>meta_id = str ''P2'', meta_name = str ''Trial'', description = [],
                      createdAt = 6, lastModified = 1000\<rparr>,
              data = \<lparr>project = [], library = INITIAL_LIBRARY\<lparr>forms := []\<rparr>, versions = []\<rparr>\<rparr> \<and>
   activeProject (setVersionsWrapper ticking (NewValue [JNull]) two_projects)
     = Some \<lparr>meta = \<lparr>meta_id = str ''P2'', meta_name = str ''Trial'', description = [],
                      createdAt = 6, lastModified = 1000\<rparr>,
              data = \<lparr>project = [], library = INITIAL_LIBRARY, versions = [JNull]\<rparr>\<rparr>"
proof -
  have a: "activeProject two_projects = Some (example_file (str ''P2'') 6)"
    by (simp add: activeProject_def two_projects_def example_file_def)
  have b: "\<not> falsy (activeProjectId two_projects)"
    by (simp add: falsy_def two_projects_def str_def)
  show ?thesis
    using C5_edit_bumps_lastModified [OF a b, of ticking "NewValue [JNull]"
        "FromPrevious (\<lambda>l. l\<lparr>forms := []\<rparr>)" "NewValue [JNull]"]
    by (simp add: resolve_def ticking_def example_file_def)
qed

text \<open>
  C10, as the code has it. The claim says that every project other than the active
  one is returned unchanged. The \<^verbatim>\<open>map\<close> of line 172 rewrites every project that has
  the active id, and ids can repeat: in the state that two creations at one reading
  of the clock leave (see C6), the active project, the first with the active id
  (line 168), is B, and one edit of the tree also rewrites A, the second in the
  list, which gets the new tree and the second reading of the clock.
\<close>

theorem C10_same_id_project_rewritten:
  "Option.bind (handleCreateProject frozen (str ''A'') [] initial_state)
     (handleCreateProject frozen (str ''B'') []) = Some same_id_projects \<and>
   activeProject same_id_projects = Some (created_at_1000 (str ''B'')) \<and>
   projects same_id_projects ! 1 = created_at_1000 (str ''A'') \<and>
   projects (updateActiveProjectData ticking example_edit same_id_projects) ! 1 =
     \<lparr>meta = \<lparr>meta_id = str ''PROJ_1000'', meta_name = str ''A'', description = [],
              createdAt = 1000, lastModified = 1001\<rparr>,
      data = \<lparr>project = [JNull], library = INITIAL_LIBRARY, versions = []\<rparr>\<rparr> \<and>
   projects (updateActiveProjectData ticking example_edit same_id_projects) ! 1 \<noteq>
     projects same_id_projects ! 1"
proof -
  have i: "str ''PROJ_'' @ Number_toString 1000 = str ''PROJ_1000''"
    by (simp add: Number_toString_1000) (simp add: str_def)
  have n: "str ''PROJ_1000'' \<noteq> []"
    by (simp add: str_def)
  have "Option.bind (handleCreateProject frozen (str ''A'') [] initial_state)
          (handleCreateProject frozen (str ''B'') []) = Some same_id_projects"
    by (simp add: handleCreateProject_def deep_clone_library_eq frozen_def initial_state_def
        same_id_projects_def created_at_1000_def i)
  moreover have "activeProject same_id_projects = Some (created_at_1000 (str ''B''))"
    by (simp add: activeProject_def same_id_projects_def created_at_1000_def)
  moreover have "projects same_id_projects ! 1 = created_at_1000 (str ''A'')"
    by (simp add: same_id_projects_def)
  moreover have e: "projects (updateActiveProjectData ticking example_edit same_id_projects) ! 1 =
      \<lparr>meta = \<lparr>meta_id = str ''PROJ_1000'', meta_name = str ''A'', description = [],
               createdAt = 1000, lastModified = 1001\<rparr>,
       data = \<lparr>project = [JNull], library = INITIAL_LIBRARY, versions = []\<rparr>\<rparr>"
    using n
    by (simp add: updateActiveProjectData_def same_id_projects_def created_at_1000_def
        example_edit_def ticking_def)
  moreover have "projects (updateActiveProjectData ticking example_edit same_id_projects) ! 1 \<noteq>
      projects same_id_projects ! 1"
    unfolding e by (simp add: same_id_projects_def created_at_1000_def)
  ultimately show ?thesis by blast
qed

text \<open>
  C10, amended: for every data edit through \<^verbatim>\<open>updateActiveProjectData\<close>: the list
  keeps its length and \<^verbatim>\<open>activeProjectId\<close> its value; every project whose \<^verbatim>\<open>meta.id\<close>
  is not the active id is returned unchanged, at its place; every project, also one
  with the active id, keeps its \<^verbatim>\<open>meta.id\<close>, \<^verbatim>\<open>meta.name\<close>, \<^verbatim>\<open>meta.description\<close> and
  \<^verbatim>\<open>meta.createdAt\<close>; and if no project is active (\<^verbatim>\<open>activeProjectId\<close> is falsy) the
  whole state is unchanged.
\<close>

theorem C10_update_frame:
  "(falsy (activeProjectId s) \<longrightarrow> updateActiveProjectData now u s = s) \<and>
   activeProjectId (updateActiveProjectData now u s) = activeProjectId s \<and>
   length (projects (updateActiveProjectData now u s)) = length (projects s) \<and>
   (\<forall>i < length (projects s).
      (Some (meta_id (meta (projects s ! i))) \<noteq> activeProjectId s \<longrightarrow>
         projects (updateActiveProjectData now u s) ! i = projects s ! i) \<and>
      meta_id (meta (projects (updateActiveProjectData now u s) ! i)) = meta_id (meta (projects s ! i)) \<and>
      meta_name (meta (projects (updateActiveProjectData now u s) ! i)) = meta_name (meta (projects s ! i)) \<and>
      description (meta (projects (updateActiveProjectData now u s) ! i)) = description (meta (projects s ! i)) \<and>
      createdAt (meta (projects (updateActiveProjectData now u s) ! i)) = createdAt (meta (projects s ! i)))"
proof (cases "activeProjectId s")
  case None
  then show ?thesis by (simp add: updateActiveProjectData_def falsy_def)
next
  case (Some a)
  show ?thesis
  proof (cases "a = []")
    case True
    then show ?thesis using Some by (simp add: updateActiveProjectData_def falsy_def)
  next
    case False
    then show ?thesis
      using Some
      by (simp add: updateActiveProjectData_def falsy_def update_projects_other update_projects_meta)
  qed
qed

theorem C10_update_frame_witness:
  "updateActiveProjectData ticking (\<lambda>d. d\<lparr>project := [JNull]\<rparr>) one_project = one_project \<and>
   projects (updateActiveProjectData ticking (\<lambda>d. d\<lparr>project := [JNull]\<rparr>) two_projects) ! 0
     = example_file (str ''P1'') 5 \<and>
   meta_id (meta (projects (updateActiveProjectData ticking (\<lambda>d. d\<lparr>project := [JNull]\<rparr>) two_projects) ! 1))
     = str ''P2'' \<and>
   createdAt (meta (projects (updateActiveProjectData ticking (\<lambda>d. d\<lparr>project := [JNull]\<rparr>) two_projects) ! 1))
     = 6"
proof -
  let ?u = "\<lambda>d. d\<lparr>project := [JNull]\<rparr>"
  have f: "falsy (activeProjectId one_project)"
    by (simp add: falsy_def one_project_def)
  have 1: "updateActiveProjectData ticking ?u one_project = one_project"
    using C10_update_frame [of one_project ticking ?u] f by blast
  have l: "length (projects two_projects) = 2"
    by (simp add: two_projects_def)
  have n: "Some (meta_id (meta (projects two_projects ! 0))) \<noteq> activeProjectId two_projects"
    by (simp add: two_projects_def example_file_def)
  have all: "\<forall>i < length (projects two_projects).
      (Some (meta_id (meta (projects two_projects ! i))) \<noteq> activeProjectId two_projects \<longrightarrow>
         projects (updateActiveProjectData ticking ?u two_projects) ! i = projects two_projects ! i) \<and>
      meta_id (meta (projects (updateActiveProjectData ticking ?u two_projects) ! i))
        = meta_id (meta (projects two_projects ! i)) \<and>
      meta_name (meta (projects (updateActiveProjectData ticking ?u two_projects) ! i))
        = meta_name (meta (projects two_projects ! i)) \<and>
      description (meta (projects (updateActiveProjectData ticking ?u two_projects) ! i))
        = description (meta (projects two_projects ! i)) \<and>
      createdAt (meta (projects (updateActiveProjectData ticking ?u two_projects) ! i))
        = createdAt (meta (projects two_projects ! i))"
    using C10_update_frame [of two_projects ticking ?u] by blast
  have 2: "projects (updateActiveProjectData ticking ?u two_projects) ! 0 = projects two_projects ! 0"
    using all [rule_format, of 0] l n by simp
  have 3: "meta_id (meta (projects (updateActiveProjectData ticking ?u two_projects) ! 1))
             = meta_id (meta (projects two_projects ! 1)) \<and>
           createdAt (meta (projects (updateActiveProjectData ticking ?u two_projects) ! 1))
             = createdAt (meta (projects two_projects ! 1))"
    using all [rule_format, of 1] l by simp
  show ?thesis
    using 1 2 3 by (simp add: two_projects_def example_file_def)
qed

section \<open>Loading and saving\<close>

lemma stored_nonempty: "JSON_stringify (JArr vs) \<noteq> []"
  using stringify_nonempty [of "JArr vs"] .

lemma wf_project_files: "list_all valid_ProjectFile ps \<Longrightarrow> wf_elements (map ProjectFile_toJS ps)"
  by (induction ps) (auto simp: wf_ProjectFile)

text \<open>
  C3: for every non-empty list of valid Project Files, what the load effect
  installs at the next start from the text the persist effect wrote is the list
  itself: as JavaScript values it is equal to the list saved, element by element in
  the same order, and read at the type \<^verbatim>\<open>ProjectFile\<close> it gives back every file with
  its nodes, variables, forms and versions in order, its numbers, and its optional
  fields absent (\<open>None\<close>) or present, also empty, as they were.
\<close>

theorem C3_persist_load_roundtrip:
  assumes "ps \<noteq> []" and "list_all valid_ProjectFile ps"
  shows "startup JSON_parse (persist_effect ps localStorage) = map ProjectFile_toJS ps \<and>
         collect ProjectFile_of (startup JSON_parse (persist_effect ps localStorage)) = Some ps"
proof -
  have "wf_jsval (JArr (map ProjectFile_toJS ps))"
    using assms(2) by (simp add: wf_project_files)
  then have "JSON_parse (JSON_stringify (JArr (map ProjectFile_toJS ps)))
             = Some (JArr (map ProjectFile_toJS ps))"
    by (rule JSON_roundtrip)
  then have "startup JSON_parse (persist_effect ps localStorage) = map ProjectFile_toJS ps"
    using assms(1) stored_nonempty [of "map ProjectFile_toJS ps"]
    by (simp add: startup_def load_effect_def persist_effect_def del: JSON_stringify.simps)
  then show ?thesis
    by (simp add: collect_map)
qed

theorem C3_persist_load_roundtrip_witness:
  "startup JSON_parse (persist_effect [example_tree_file, example_file (str ''P1'') 5] Map.empty)
     = [ProjectFile_toJS example_tree_file, ProjectFile_toJS (example_file (str ''P1'') 5)] \<and>
   collect ProjectFile_of
     (startup JSON_parse (persist_effect [example_tree_file, example_file (str ''P1'') 5] Map.empty))
     = Some [example_tree_file, example_file (str ''P1'') 5]"
proof -
  have v: "list_all valid_ProjectFile [example_tree_file, example_file (str ''P1'') 5]"
    by (simp add: valid_ProjectFile_def example_tree_file_def example_node_def example_file_def
        is_safe_integer_def precedes_def array_index_def str_def is_digit_def digit_value_def)
  show ?thesis
    using C3_persist_load_roundtrip [OF _ v, of Map.empty] by simp
qed

text \<open>
  C8: the persist effect replaces the whole stored document: for a non-empty list
  it stores the serialization of the list under the key, whatever was stored there
  before; for the empty list it stores nothing and leaves the storage as it is. So
  when the one project of a list that was persisted is deleted, the list becomes
  empty and the storage still holds the document with that project.
\<close>

theorem C8_persist_skips_empty_list:
  "(ps \<noteq> [] \<longrightarrow>
      persist_effect ps localStorage =
        localStorage(PROJECTS_STORAGE_KEY \<mapsto> JSON_stringify (JArr (map ProjectFile_toJS ps))) \<and>
      persist_effect ps localStorage PROJECTS_STORAGE_KEY =
        persist_effect ps other PROJECTS_STORAGE_KEY) \<and>
   persist_effect [] localStorage = localStorage \<and>
   (projects s = [p] \<longrightarrow>
      projects (handleDeleteProject (meta_id (meta p)) s) = [] \<and>
      persist_effect (projects (handleDeleteProject (meta_id (meta p)) s))
          (persist_effect (projects s) localStorage) PROJECTS_STORAGE_KEY
        = Some (JSON_stringify (JArr [ProjectFile_toJS p])))"
  by (simp add: persist_effect_def handleDeleteProject_def)

theorem C8_persist_skips_empty_list_witness:
  "persist_effect (projects one_project) [PROJECTS_STORAGE_KEY \<mapsto> str ''[]''] PROJECTS_STORAGE_KEY
     = Some (JSON_stringify (JArr [ProjectFile_toJS (example_file (str ''P1'') 5)])) \<and>
   projects (handleDeleteProject (str ''P1'') one_project) = [] \<and>
   persist_effect (projects (handleDeleteProject (str ''P1'') one_project))
       (persist_effect (projects one_project) Map.empty) PROJECTS_STORAGE_KEY
     = Some (JSON_stringify (JArr [ProjectFile_toJS (example_file (str ''P1'') 5)]))"
proof -
  let ?p = "example_file (str ''P1'') 5"
  have ps: "projects one_project = [?p]" by (simp add: one_project_def)
  have i: "meta_id (meta ?p) = str ''P1''" by (simp add: example_file_def)
  have "persist_effect [?p] [PROJECTS_STORAGE_KEY \<mapsto> str ''[]''] =
          [PROJECTS_STORAGE_KEY \<mapsto> str ''[]'']
            (PROJECTS_STORAGE_KEY \<mapsto> JSON_stringify (JArr (map ProjectFile_toJS [?p])))"
    using C8_persist_skips_empty_list [where ps = "[?p]"
        and localStorage = "[PROJECTS_STORAGE_KEY \<mapsto> str ''[]'']"
        and s = one_project and p = ?p] by blast
  then have 1: "persist_effect (projects one_project) [PROJECTS_STORAGE_KEY \<mapsto> str ''[]'']
                   PROJECTS_STORAGE_KEY
                 = Some (JSON_stringify (JArr [ProjectFile_toJS ?p]))"
    unfolding ps by (simp del: JSON_stringify.simps)
  have "projects (handleDeleteProject (meta_id (meta ?p)) one_project) = [] \<and>
        persist_effect (projects (handleDeleteProject (meta_id (meta ?p)) one_project))
          (persist_effect (projects one_project) Map.empty) PROJECTS_STORAGE_KEY
        = Some (JSON_stringify (JArr [ProjectFile_toJS ?p]))"
    using C8_persist_skips_empty_list [where ps = "[?p]" and localStorage = Map.empty
        and s = one_project and p = ?p] ps by blast
  then show ?thesis
    using 1 unfolding i by blast
qed

text \<open>
  C9: on startup the project list is empty when nothing is stored under the key,
  when the stored text does not parse (whatever the parser), and when it parses to
  a value that is not an array; a non-empty text that parses to an array installs
  the elements of that array as the list; and a list that is not empty after
  startup is the array that the stored text parsed to.
\<close>

theorem C9_startup_ignores_bad_payload:
  "(localStorage PROJECTS_STORAGE_KEY = None \<longrightarrow> startup parse localStorage = []) \<and>
   (localStorage PROJECTS_STORAGE_KEY = Some saved \<and> parse saved = None \<longrightarrow>
      startup parse localStorage = []) \<and>
   (localStorage PROJECTS_STORAGE_KEY = Some saved \<and> parse saved = Some v \<and> \<not> Array_isArray v \<longrightarrow>
      startup parse localStorage = []) \<and>
   (localStorage PROJECTS_STORAGE_KEY = Some saved \<and> saved \<noteq> [] \<and> parse saved = Some (JArr xs) \<longrightarrow>
      startup parse localStorage = xs) \<and>
   (startup parse localStorage \<noteq> [] \<longrightarrow>
      (\<exists>text. localStorage PROJECTS_STORAGE_KEY = Some text \<and>
              parse text = Some (JArr (startup parse localStorage))))"
  by (auto simp: startup_def load_effect_def Array_isArray_def split: option.splits jsval.splits)

theorem C9_startup_ignores_bad_payload_witness:
  "startup JSON_parse Map.empty = [] \<and>
   startup JSON_parse [PROJECTS_STORAGE_KEY \<mapsto> str ''[1,''] = [] \<and>
   startup JSON_parse [PROJECTS_STORAGE_KEY \<mapsto> str ''{}''] = [] \<and>
   startup JSON_parse [PROJECTS_STORAGE_KEY \<mapsto> str ''[1,2]''] = [JNum 1, JNum 2]"
proof -
  have a: "JSON_parse (str ''[1,2]'') = Some (JArr [JNum 1, JNum 2])"
    by (simp add: JSON_parse_def str_def skip_ws_def is_ws_def parse_number_def
        parse_unsigned_def is_digit_def digit_value_def integer_end_def)
  have b: "JSON_parse (str ''{}'') = Some (JObj [])"
    by (simp add: JSON_parse_def str_def skip_ws_def is_ws_def)
  have c: "JSON_parse (str ''[1,'') = None"
    by (simp add: JSON_parse_def str_def skip_ws_def is_ws_def parse_number_def
        parse_unsigned_def is_digit_def digit_value_def integer_end_def)
  have n: "str ''[1,2]'' \<noteq> []" by (simp add: str_def)
  have "startup JSON_parse Map.empty = []"
    using C9_startup_ignores_bad_payload [where localStorage = Map.empty and parse = JSON_parse,
        THEN conjunct1]
    by simp
  moreover have "startup JSON_parse [PROJECTS_STORAGE_KEY \<mapsto> str ''[1,''] = []"
    using C9_startup_ignores_bad_payload [where localStorage = "[PROJECTS_STORAGE_KEY \<mapsto> str ''[1,'']"
        and parse = JSON_parse and saved = "str ''[1,''", THEN conjunct2, THEN conjunct1] c
    by simp
  moreover have "startup JSON_parse [PROJECTS_STORAGE_KEY \<mapsto> str ''{}''] = []"
    using C9_startup_ignores_bad_payload [where localStorage = "[PROJECTS_STORAGE_KEY \<mapsto> str ''{}'']"
        and parse = JSON_parse and saved = "str ''{}''" and v = "JObj []",
        THEN conjunct2, THEN conjunct2, THEN conjunct1] b
    by (simp add: Array_isArray_def)
  moreover have "startup JSON_parse [PROJECTS_STORAGE_KEY \<mapsto> str ''[1,2]''] = [JNum 1, JNum 2]"
    using C9_startup_ignores_bad_payload [where localStorage = "[PROJECTS_STORAGE_KEY \<mapsto> str ''[1,2]'']"
        and parse = JSON_parse and saved = "str ''[1,2]''" and xs = "[JNum 1, JNum 2]",
        THEN conjunct2, THEN conjunct2, THEN conjunct2, THEN conjunct1] a n
    by simp
  ultimately show ?thesis by blast
qed

section \<open>Further properties\<close>

lemma Number_toString_inj: "Number_toString i = Number_toString j \<Longrightarrow> i = j"
proof -
  assume e: "Number_toString i = Number_toString j"
  have "parse_number (Number_toString i @ []) = Some (i, [])"
    by (rule parse_number_Number_toString) simp
  moreover have "parse_number (Number_toString j @ []) = Some (j, [])"
    by (rule parse_number_Number_toString) simp
  ultimately show "i = j" using e by simp
qed

lemma project_ids_filter:
  "distinct (project_ids ps) \<Longrightarrow> distinct (project_ids (filter P ps))"
  by (simp add: project_ids_def distinct_map_filter)

lemma create_project_ids:
  "\<exists>s'. handleCreateProject now name descr s = Some s' \<and>
        project_ids (projects s') =
          (str ''PROJ_'' @ Number_toString (now 0)) # project_ids (projects s)"
  by (simp add: handleCreateProject_def deep_clone_library_eq project_ids_def)

text \<open>
  X1: from a list whose ids are pairwise different, importing a document and
  deleting a project give such a list again, and so does creating a project when
  the id built from the clock, \<^verbatim>\<open>PROJ_\<close> and the reading, is not an id of the list.
\<close>

theorem X1_ids_stay_distinct:
  assumes "distinct (project_ids (projects s))"
  shows "distinct (project_ids (projects (fst (handleImportProject fileData s)))) \<and>
         distinct (project_ids (projects (handleDeleteProject i s))) \<and>
         (str ''PROJ_'' @ Number_toString (now 0) \<notin> set (project_ids (projects s)) \<longrightarrow>
            (\<exists>s'. handleCreateProject now name descr s = Some s' \<and>
                  distinct (project_ids (projects s'))))"
proof -
  have "distinct (project_ids (projects (fst (handleImportProject fileData s))))"
    using assms by (simp add: handleImportProject_def list_ex_ids) (simp add: project_ids_def)
  moreover have "distinct (project_ids (projects (handleDeleteProject i s)))"
    using assms by (simp add: handleDeleteProject_def project_ids_filter)
  moreover have "\<exists>s'. handleCreateProject now name descr s = Some s' \<and>
                  distinct (project_ids (projects s'))"
    if "str ''PROJ_'' @ Number_toString (now 0) \<notin> set (project_ids (projects s))"
    using create_project_ids [of now name descr s] assms that by auto
  ultimately show ?thesis by blast
qed

theorem X1_ids_stay_distinct_witness:
  "distinct (project_ids (projects (fst (handleImportProject (example_file (str ''P2'') 7) two_projects)))) \<and>
   distinct (project_ids (projects (handleDeleteProject (str ''P1'') two_projects))) \<and>
   (\<exists>s'. handleCreateProject ticking (str ''A'') [] two_projects = Some s' \<and>
         distinct (project_ids (projects s')))"
proof -
  have d: "distinct (project_ids (projects two_projects))"
    by (simp add: two_projects_def project_ids_def example_file_def)
  have f: "str ''PROJ_'' @ Number_toString (ticking 0) \<notin> set (project_ids (projects two_projects))"
    by (simp add: two_projects_def project_ids_def example_file_def ticking_def
        Number_toString_1000) (simp add: str_def)
  show ?thesis
    using X1_ids_stay_distinct [OF d, of "example_file (str ''P2'') 7" "str ''P1''" ticking
        "str ''A''" "[]"] f
    by blast
qed

text \<open>
  X2: two projects created one after the other at different readings of the clock
  get different ids, whatever their names and descriptions.
\<close>

theorem X2_different_readings_different_ids:
  assumes "now 0 \<noteq> later 0"
  shows "\<exists>s1 s2. handleCreateProject now name descr s = Some s1 \<and>
           handleCreateProject later name' descr' s1 = Some s2 \<and>
           project_ids (projects s2) =
             (str ''PROJ_'' @ Number_toString (later 0)) #
             (str ''PROJ_'' @ Number_toString (now 0)) # project_ids (projects s) \<and>
           str ''PROJ_'' @ Number_toString (later 0) \<noteq> str ''PROJ_'' @ Number_toString (now 0)"
proof -
  obtain s1 where 1: "handleCreateProject now name descr s = Some s1"
      "project_ids (projects s1) = (str ''PROJ_'' @ Number_toString (now 0)) # project_ids (projects s)"
    using create_project_ids [of now name descr s] by blast
  obtain s2 where 2: "handleCreateProject later name' descr' s1 = Some s2"
      "project_ids (projects s2) = (str ''PROJ_'' @ Number_toString (later 0)) # project_ids (projects s1)"
    using create_project_ids [of later name' descr' s1] by blast
  have "Number_toString (later 0) \<noteq> Number_toString (now 0)"
    using assms Number_toString_inj by fastforce
  then show ?thesis
    using 1 2 by simp
qed

theorem X2_different_readings_different_ids_witness:
  "\<exists>s1 s2. handleCreateProject frozen (str ''A'') [] initial_state = Some s1 \<and>
     handleCreateProject (\<lambda>k. 2000) (str ''B'') [] s1 = Some s2 \<and>
     project_ids (projects s2) =
       (str ''PROJ_'' @ Number_toString 2000) #
       (str ''PROJ_'' @ Number_toString (frozen 0)) # project_ids (projects initial_state) \<and>
     str ''PROJ_'' @ Number_toString 2000 \<noteq> str ''PROJ_'' @ Number_toString (frozen 0)"
proof -
  have "frozen 0 \<noteq> (\<lambda>k. 2000 :: int) 0"
    by (simp add: frozen_def)
  then show ?thesis
    using X2_different_readings_different_ids [of frozen "\<lambda>k. 2000" "str ''A''" "[]"
        initial_state "str ''B''" "[]"]
    by simp
qed

text \<open>
  X3: when the only project of a persisted list is deleted, the list is empty, the
  persist effect writes nothing, and the next start loads the deleted project again
  from the document that is still stored.
\<close>

theorem X3_deleted_project_is_loaded_again:
  assumes "projects s = [p]" and "valid_ProjectFile p"
  shows "projects (handleDeleteProject (meta_id (meta p)) s) = [] \<and>
         startup JSON_parse
           (persist_effect (projects (handleDeleteProject (meta_id (meta p)) s))
              (persist_effect (projects s) localStorage))
           = [ProjectFile_toJS p]"
proof -
  have e: "projects (handleDeleteProject (meta_id (meta p)) s) = []"
    using assms(1) by (simp add: handleDeleteProject_def)
  have "wf_jsval (JArr (map ProjectFile_toJS [p]))"
    using assms(2) by (simp add: wf_ProjectFile)
  then have "JSON_parse (JSON_stringify (JArr (map ProjectFile_toJS [p])))
             = Some (JArr (map ProjectFile_toJS [p]))"
    by (rule JSON_roundtrip)
  then show ?thesis
    using e assms(1) stored_nonempty [of "map ProjectFile_toJS [p]"]
    by (simp add: startup_def load_effect_def persist_effect_def del: JSON_stringify.simps)
qed

theorem X3_deleted_project_is_loaded_again_witness:
  "projects (handleDeleteProject (str ''P1'') one_project) = [] \<and>
   startup JSON_parse
     (persist_effect (projects (handleDeleteProject (str ''P1'') one_project))
        (persist_effect (projects one_project) Map.empty))
     = [ProjectFile_toJS (example_file (str ''P1'') 5)]"
proof -
  have a: "projects one_project = [example_file (str ''P1'') 5]"
    by (simp add: one_project_def)
  have v: "valid_ProjectFile (example_file (str ''P1'') 5)"
    by (simp add: valid_ProjectFile_def example_file_def is_safe_integer_def)
  have i: "meta_id (meta (example_file (str ''P1'') 5)) = str ''P1''"
    by (simp add: example_file_def)
  show ?thesis
    using X3_deleted_project_is_loaded_again [OF a v, of Map.empty] unfolding i .
qed

end
